theory Spec2Isabelle
  imports Complex_Main
begin

section \<open>Data model (models/Wishlist.js, models/Product.js)\<close>

text \<open>
  Mongo ObjectIds are modelled as natural numbers; \<open>a.toString() === b.toString()\<close> on two
  ObjectIds is equality of the numbers. \<open>Date.now\<close> is a parameter \<open>now\<close> of the handlers
  that store a timestamp.

  A JavaScript Number is the type parameter \<open>'n\<close> of the model, with the operations the
  code uses on it: \<open>0\<close>, \<open>1\<close>, \<open>+\<close>, \<open><\<close> and \<open>\<le>\<close>. Nothing is assumed of them, so every
  theorem holds for IEEE doubles with the rounded addition and the comparisons of
  JavaScript (the zero of either sign read as one value); the example store is stated
  over the reals, where its sums are the same.

  A JavaScript string is the list of its UTF-16 code units, so \<open>length\<close> is
  \<open>String.length\<close> and equality is \<open>===\<close>. \<open>js\<close> writes an ASCII literal.

  A field of a request body is taken as a JSON value of the type of its schema path, but
  for \<open>isPublic\<close>, whose raw value the wishlist handlers test before Mongoose casts it.
\<close>

type_synonym jsString = "nat list"

definition js :: "string \<Rightarrow> jsString" where
  "js s = map of_char s"

type_synonym userId = nat
type_synonym wishlistId = nat
type_synonym productId = nat
type_synonym timestamp = nat

datatype role = Viewer | Editor | Admin

record collaborator =
  collab_user :: userId
  collab_role :: role
  joinedAt :: timestamp

record 'n wishlist =
  wishlist_id :: wishlistId
  title :: jsString
  description :: "jsString option"
  owner :: userId
  collaborators :: "collaborator list"
  products :: "productId list"
  isPublic :: "bool option"
  inviteCode :: "jsString option"
  tags :: "jsString list"
  totalValue :: 'n

record comment =
  comment_user :: userId
  comment_text :: jsString
  comment_createdAt :: timestamp

record reaction =
  reaction_user :: userId
  emoji :: jsString
  reaction_createdAt :: timestamp

datatype priority = Low | Medium | High

datatype status = Wanted | Purchased | Unavailable

record 'n product =
  product_id :: productId
  name :: jsString
  p_description :: "jsString option"
  price :: "'n option"
  currency :: jsString
  imageUrl :: "jsString option"
  productUrl :: "jsString option"
  category :: "jsString option"
  brand :: "jsString option"
  wishlist :: wishlistId
  addedBy :: userId
  p_priority :: priority
  p_status :: status
  purchasedBy :: "userId option"
  purchasedAt :: "timestamp option"
  comments :: "comment list"
  reactions :: "reaction list"
  p_tags :: "jsString list"

text \<open>
  The document store: the two collections, each in insertion order. User documents are
  not modelled: the API has no endpoint that deletes a user, so \<open>populate\<close> of a user
  reference only decorates a response.
\<close>

record 'n db =
  wishlistDocs :: "'n wishlist list"
  productDocs :: "'n product list"

text \<open>The outcomes of a request other than success, by HTTP status.\<close>

datatype error =
    BadRequest400
  | Forbidden403
  | NotFound404
  | ServerError500

text \<open>The JSON value of a body field that a handler reads raw: \<open>null\<close>, a boolean, a
  number, a string, or an array or object.\<close>

datatype 'n json = JNull | JBool bool | JNum 'n | JStr jsString | JCompound

text \<open>JavaScript truthiness: \<open>null\<close>, \<open>false\<close>, a zero or NaN number and the empty string
  are falsy.\<close>

fun jsTruthy :: "('n::{zero,one,plus,ord}) json \<Rightarrow> bool" where
  "jsTruthy JNull = False"
| "jsTruthy (JBool b) = b"
| "jsTruthy (JNum v) = (v < 0 \<or> 0 < v)"
| "jsTruthy (JStr s) = (s \<noteq> [])"
| "jsTruthy JCompound = True"

text \<open>The Boolean cast of Mongoose: \<open>true\<close>, \<open>'true'\<close>, \<open>1\<close>, \<open>'1'\<close>, \<open>'yes'\<close> become true;
  \<open>false\<close>, \<open>'false'\<close>, \<open>0\<close>, \<open>'0'\<close>, \<open>'no'\<close> become false; \<open>null\<close> stays \<open>null\<close> (the
  result \<open>Some None\<close>); every other value is a CastError (the result \<open>None\<close>).\<close>

fun castBoolean :: "('n::{zero,one,plus,ord}) json \<Rightarrow> bool option option" where
  "castBoolean JNull = Some None"
| "castBoolean (JBool b) = Some (Some b)"
| "castBoolean (JNum v) =
     (if v = 1 then Some (Some True) else if v = 0 then Some (Some False) else None)"
| "castBoolean (JStr s) =
     (if s \<in> set [js ''true'', js ''1'', js ''yes''] then Some (Some True)
      else if s \<in> set [js ''false'', js ''0'', js ''no''] then Some (Some False)
      else None)"
| "castBoolean JCompound = None"

section \<open>Store operations (Mongoose calls of the routes)\<close>

definition findWishlistById :: "('n::{zero,one,plus,ord}) db \<Rightarrow> wishlistId \<Rightarrow> 'n wishlist option" where
  "findWishlistById d i = find (\<lambda>w. wishlist_id w = i) (wishlistDocs d)"

definition findProductById :: "('n::{zero,one,plus,ord}) db \<Rightarrow> productId \<Rightarrow> 'n product option" where
  "findProductById d i = find (\<lambda>p. product_id p = i) (productDocs d)"

text \<open>\<open>doc.save()\<close> of a document loaded from the store: the stored document with the
  same \<open>_id\<close> is replaced. The validation that \<open>save()\<close> runs first is part of the
  handlers: for a product it is \<open>validProductDoc\<close> below; a wishlist is written by create
  and update only, which validate every path they set, so the validators that \<open>save()\<close>
  runs on a loaded wishlist pass and are left out.\<close>

definition saveWishlist :: "('n::{zero,one,plus,ord}) db \<Rightarrow> 'n wishlist \<Rightarrow> 'n db" where
  "saveWishlist d w =
     d\<lparr>wishlistDocs := map (\<lambda>x. if wishlist_id x = wishlist_id w then w else x) (wishlistDocs d)\<rparr>"

definition saveProduct :: "('n::{zero,one,plus,ord}) db \<Rightarrow> 'n product \<Rightarrow> 'n db" where
  "saveProduct d p =
     d\<lparr>productDocs := map (\<lambda>x. if product_id x = product_id p then p else x) (productDocs d)\<rparr>"

text \<open>\<open>save()\<close> of a new document appends it; its \<open>_id\<close> is fresh.\<close>

definition freshWishlistId :: "('n::{zero,one,plus,ord}) db \<Rightarrow> wishlistId" where
  "freshWishlistId d = Suc (fold max (map wishlist_id (wishlistDocs d)) 0)"

definition freshProductId :: "('n::{zero,one,plus,ord}) db \<Rightarrow> productId" where
  "freshProductId d = Suc (fold max (map product_id (productDocs d)) 0)"

definition insertWishlist :: "('n::{zero,one,plus,ord}) db \<Rightarrow> 'n wishlist \<Rightarrow> 'n db" where
  "insertWishlist d w = d\<lparr>wishlistDocs := wishlistDocs d @ [w]\<rparr>"

definition insertProduct :: "('n::{zero,one,plus,ord}) db \<Rightarrow> 'n product \<Rightarrow> 'n db" where
  "insertProduct d p = d\<lparr>productDocs := productDocs d @ [p]\<rparr>"

text \<open>\<open>await doc.populate('products')\<close> (Mongoose 6 and later, where awaiting the call
  loads the documents): the referenced product documents in the order of the references;
  a reference with no document is dropped.\<close>

definition populate :: "('n::{zero,one,plus,ord}) db \<Rightarrow> productId list \<Rightarrow> 'n product list" where
  "populate d ids = List.map_filter (findProductById d) ids"

text \<open>The unique (sparse) index on \<open>inviteCode\<close>: a write that gives wishlist \<open>i\<close> the
  code \<open>c\<close> fails when another wishlist holds \<open>c\<close>.\<close>

definition codeTaken :: "('n::{zero,one,plus,ord}) db \<Rightarrow> wishlistId \<Rightarrow> jsString \<Rightarrow> bool" where
  "codeTaken d i c =
     list_ex (\<lambda>w. wishlist_id w \<noteq> i \<and> inviteCode w = Some c) (wishlistDocs d)"

text \<open>The \<open>trim\<close> setter of the schemas is \<open>String.prototype.trim\<close>: it strips the
  white space and line terminators of ECMAScript (TAB, LF, VT, FF, CR, SP, NBSP, U+1680,
  U+2000 to U+200A, U+2028, U+2029, U+202F, U+205F, U+3000, U+FEFF).\<close>

definition isSpace :: "nat \<Rightarrow> bool" where
  "isSpace c = (c \<in> set [0x09, 0x0A, 0x0B, 0x0C, 0x0D, 0x20, 0xA0, 0x1680, 0x2028, 0x2029,
                          0x202F, 0x205F, 0x3000, 0xFEFF]
                \<or> (0x2000 \<le> c \<and> c \<le> 0x200A))"

definition trim :: "jsString \<Rightarrow> jsString" where
  "trim s = rev (dropWhile isSpace (rev (dropWhile isSpace s)))"

section \<open>Wishlist methods (models/Wishlist.js)\<close>

text \<open>\<open>generateInviteCode\<close>: the token built from \<open>Math.random()\<close> is the parameter
  \<open>code\<close>; the method stores it on the document and returns it.\<close>

definition generateInviteCode :: "('n::{zero,one,plus,ord}) wishlist \<Rightarrow> jsString \<Rightarrow> 'n wishlist \<times> jsString" where
  "generateInviteCode w code = (w\<lparr>inviteCode := Some code\<rparr>, code)"

text \<open>\<open>calculateTotalValue\<close>: populate, then
  \<open>reduce((total, product) => total + (product.price || 0), 0)\<close>. A price is truthy when
  it is below or above zero (a zero and NaN are not).\<close>

definition priceOrZero :: "('n::{zero,one,plus,ord}) product \<Rightarrow> 'n" where
  "priceOrZero p = (case price p of None \<Rightarrow> 0 | Some v \<Rightarrow> if v < 0 \<or> 0 < v then v else 0)"

definition calculateTotalValue :: "('n::{zero,one,plus,ord}) db \<Rightarrow> 'n wishlist \<Rightarrow> 'n wishlist" where
  "calculateTotalValue d w =
     w\<lparr>totalValue := foldl (\<lambda>total product. total + priceOrZero product) 0 (populate d (products w))\<rparr>"

section \<open>Wishlist routes (routes/wishlists.js)\<close>

text \<open>Every handler takes the store and the authenticated actor (\<open>req.user._id\<close>) and
  returns the response together with the store after the request. Request bodies are
  records of optional fields; \<open>None\<close> is \<open>undefined\<close>.\<close>

definition optLen :: "jsString option \<Rightarrow> nat \<Rightarrow> bool" where
  "optLen s n = (case s of None \<Rightarrow> True | Some t \<Rightarrow> length t \<le> n)"

text \<open>The validators of the wishlist schema: \<open>title\<close> required, at most 100 characters;
  \<open>description\<close> at most 500.\<close>

definition validWishlist :: "('n::{zero,one,plus,ord}) wishlist \<Rightarrow> bool" where
  "validWishlist w = (title w \<noteq> [] \<and> length (title w) \<le> 100 \<and> optLen (description w) 500)"

text \<open>GET /api/wishlists/:id\<close>

definition getWishlist :: "('n::{zero,one,plus,ord}) db \<Rightarrow> wishlistId \<Rightarrow> userId \<Rightarrow> (error + 'n wishlist \<times> 'n product list) \<times> 'n db" where
  "getWishlist d i actor =
     (case findWishlistById d i of
        None \<Rightarrow> (Inl NotFound404, d)
      | Some w \<Rightarrow>
          let hasAccess = (owner w = actor
                 \<or> list_ex (\<lambda>collab. collab_user collab = actor) (collaborators w)
                 \<or> isPublic w = Some True)
          in if \<not> hasAccess then (Inl Forbidden403, d)
             else (Inr (w, populate d (products w)), d))"

text \<open>POST /api/wishlists. The document is built from \<open>isPublic || false\<close>, which the
  constructor casts (a CastError makes \<open>save()\<close> fail); \<open>if (isPublic)\<close> tests the raw
  value.\<close>

record 'n createWishlistBody =
  cw_title :: "jsString option"
  cw_description :: "jsString option"
  cw_isPublic :: "'n json option"
  cw_tags :: "jsString list option"

definition createWishlist ::
  "('n::{zero,one,plus,ord}) db \<Rightarrow> userId \<Rightarrow> 'n createWishlistBody \<Rightarrow> jsString \<Rightarrow> (error + 'n wishlist) \<times> 'n db" where
  "createWishlist d actor body code =
     (let isPublic = cw_isPublic body;
          truthy = (case isPublic of None \<Rightarrow> False | Some v \<Rightarrow> jsTruthy v);
          isPublicOrFalse = (case isPublic of
                               None \<Rightarrow> JBool False
                             | Some v \<Rightarrow> if jsTruthy v then v else JBool False);
          w0 = \<lparr>wishlist_id = freshWishlistId d,
                title = (case cw_title body of None \<Rightarrow> [] | Some t \<Rightarrow> trim t),
                description = map_option trim (cw_description body),
                owner = actor,
                collaborators = [],
                products = [],
                isPublic = (case castBoolean isPublicOrFalse of None \<Rightarrow> Some False | Some b \<Rightarrow> b),
                inviteCode = None,
                tags = (case cw_tags body of None \<Rightarrow> [] | Some ts \<Rightarrow> map trim ts),
                totalValue = 0\<rparr>;
          w = (if truthy then fst (generateInviteCode w0 code) else w0)
      in if castBoolean isPublicOrFalse = None \<or> \<not> validWishlist w then (Inl ServerError500, d)
         else if (case inviteCode w of None \<Rightarrow> False | Some c \<Rightarrow> codeTaken d (wishlist_id w) c)
         then (Inl ServerError500, d)
         else (Inr w, insertWishlist d w))"

text \<open>PUT /api/wishlists/:id.\<close>

record 'n updateWishlistBody =
  uw_title :: "jsString option"
  uw_description :: "jsString option"
  uw_isPublic :: "'n json option"
  uw_tags :: "jsString list option"

text \<open>The \<open>updates\<close> object the handler builds (with the raw \<open>isPublic\<close>), and
  \<open>findByIdAndUpdate\<close> with \<open>runValidators\<close>: \<open>None\<close> when the call throws (the cast of
  \<open>isPublic\<close>, a validator or the unique index on \<open>inviteCode\<close> fails), otherwise the
  document after the update (\<open>null\<close> when no document has the id) and the store.\<close>

record 'n wishlistUpdates =
  u_title :: "jsString option"
  u_description :: "jsString option"
  u_isPublic :: "'n json option"
  u_inviteCode :: "jsString option"
  u_tags :: "jsString list option"

definition applyWishlistUpdates :: "('n::{zero,one,plus,ord}) wishlist \<Rightarrow> 'n wishlistUpdates \<Rightarrow> 'n wishlist" where
  "applyWishlistUpdates w u =
     w\<lparr>title := (case u_title u of None \<Rightarrow> title w | Some t \<Rightarrow> trim t),
       description := (case u_description u of None \<Rightarrow> description w | Some s \<Rightarrow> Some (trim s)),
       isPublic := (case u_isPublic u of
                      None \<Rightarrow> isPublic w
                    | Some v \<Rightarrow> (case castBoolean v of None \<Rightarrow> isPublic w | Some b \<Rightarrow> b)),
       inviteCode := (case u_inviteCode u of None \<Rightarrow> inviteCode w | Some c \<Rightarrow> Some c),
       tags := (case u_tags u of None \<Rightarrow> tags w | Some ts \<Rightarrow> map trim ts)\<rparr>"

definition wishlistUpdatesValid :: "('n::{zero,one,plus,ord}) wishlistUpdates \<Rightarrow> bool" where
  "wishlistUpdatesValid u =
     ((case u_title u of None \<Rightarrow> True | Some t \<Rightarrow> trim t \<noteq> [] \<and> length (trim t) \<le> 100)
      \<and> (case u_description u of None \<Rightarrow> True | Some s \<Rightarrow> length (trim s) \<le> 500)
      \<and> (case u_isPublic u of None \<Rightarrow> True | Some v \<Rightarrow> castBoolean v \<noteq> None))"

definition findWishlistByIdAndUpdate ::
  "('n::{zero,one,plus,ord}) db \<Rightarrow> wishlistId \<Rightarrow> 'n wishlistUpdates \<Rightarrow> ('n wishlist option \<times> 'n db) option" where
  "findWishlistByIdAndUpdate d i u =
     (if \<not> wishlistUpdatesValid u then None
      else if (case u_inviteCode u of None \<Rightarrow> False | Some c \<Rightarrow> codeTaken d i c) then None
      else (case findWishlistById d i of
              None \<Rightarrow> Some (None, d)
            | Some w \<Rightarrow> Some (Some (applyWishlistUpdates w u),
                               saveWishlist d (applyWishlistUpdates w u))))"

definition buildWishlistUpdates :: "('n::{zero,one,plus,ord}) wishlist \<Rightarrow> 'n updateWishlistBody \<Rightarrow> jsString \<Rightarrow> 'n wishlistUpdates" where
  "buildWishlistUpdates w body code =
     \<lparr>u_title = (case uw_title body of None \<Rightarrow> None | Some t \<Rightarrow> if t \<noteq> [] then Some t else None),
      u_description = uw_description body,
      u_isPublic = uw_isPublic body,
      u_inviteCode = (case uw_isPublic body of
                        None \<Rightarrow> None
                      | Some v \<Rightarrow>
                          if jsTruthy v \<and> (inviteCode w = None \<or> inviteCode w = Some [])
                          then Some (snd (generateInviteCode w code)) else None),
      u_tags = uw_tags body\<rparr>"

definition updateWishlist ::
  "('n::{zero,one,plus,ord}) db \<Rightarrow> wishlistId \<Rightarrow> userId \<Rightarrow> 'n updateWishlistBody \<Rightarrow> jsString \<Rightarrow> (error + 'n wishlist option) \<times> 'n db" where
  "updateWishlist d i actor body code =
     (case findWishlistById d i of
        None \<Rightarrow> (Inl NotFound404, d)
      | Some w \<Rightarrow>
          let isOwner = (owner w = actor);
              isAdmin = list_ex (\<lambda>collab. collab_user collab = actor \<and> collab_role collab = Admin)
                          (collaborators w)
          in if \<not> isOwner \<and> \<not> isAdmin then (Inl Forbidden403, d)
             else
               let updates = buildWishlistUpdates w body code
               in (case findWishlistByIdAndUpdate d i updates of
                     None \<Rightarrow> (Inl ServerError500, d)
                   | Some (updatedWishlist, d') \<Rightarrow> (Inr updatedWishlist, d')))"

text \<open>DELETE /api/wishlists/:id: \<open>Product.deleteMany({ wishlist: id })\<close>, then
  \<open>Wishlist.findByIdAndDelete(id)\<close>.\<close>

definition deleteManyProducts :: "('n::{zero,one,plus,ord}) db \<Rightarrow> wishlistId \<Rightarrow> 'n db" where
  "deleteManyProducts d i = d\<lparr>productDocs := filter (\<lambda>p. wishlist p \<noteq> i) (productDocs d)\<rparr>"

definition findWishlistByIdAndDelete :: "('n::{zero,one,plus,ord}) db \<Rightarrow> wishlistId \<Rightarrow> 'n db" where
  "findWishlistByIdAndDelete d i = d\<lparr>wishlistDocs := filter (\<lambda>w. wishlist_id w \<noteq> i) (wishlistDocs d)\<rparr>"

definition deleteWishlist :: "('n::{zero,one,plus,ord}) db \<Rightarrow> wishlistId \<Rightarrow> userId \<Rightarrow> (error + unit) \<times> 'n db" where
  "deleteWishlist d i actor =
     (case findWishlistById d i of
        None \<Rightarrow> (Inl NotFound404, d)
      | Some w \<Rightarrow>
          if owner w \<noteq> actor then (Inl Forbidden403, d)
          else (Inr (), findWishlistByIdAndDelete (deleteManyProducts d i) i))"

text \<open>POST /api/wishlists/join/:inviteCode\<close>

definition findWishlistByInviteCode :: "('n::{zero,one,plus,ord}) db \<Rightarrow> jsString \<Rightarrow> 'n wishlist option" where
  "findWishlistByInviteCode d c = find (\<lambda>w. inviteCode w = Some c) (wishlistDocs d)"

definition joinWishlist :: "('n::{zero,one,plus,ord}) db \<Rightarrow> jsString \<Rightarrow> userId \<Rightarrow> timestamp \<Rightarrow> (error + 'n wishlist) \<times> 'n db" where
  "joinWishlist d c actor now =
     (case findWishlistByInviteCode d c of
        None \<Rightarrow> (Inl NotFound404, d)
      | Some w \<Rightarrow>
          let isAlreadyCollaborator = list_ex (\<lambda>collab. collab_user collab = actor) (collaborators w)
          in if isAlreadyCollaborator \<or> owner w = actor then (Inl BadRequest400, d)
             else
               let w' = w\<lparr>collaborators := collaborators w @
                           [\<lparr>collab_user = actor, collab_role = Editor, joinedAt = now\<rparr>]\<rparr>
               in (Inr w', saveWishlist d w'))"

text \<open>POST /api/wishlists/:id/invite\<close>

definition generateInvite :: "('n::{zero,one,plus,ord}) db \<Rightarrow> wishlistId \<Rightarrow> userId \<Rightarrow> jsString \<Rightarrow> (error + jsString) \<times> 'n db" where
  "generateInvite d i actor code =
     (case findWishlistById d i of
        None \<Rightarrow> (Inl NotFound404, d)
      | Some w \<Rightarrow>
          let isOwner = (owner w = actor);
              isAdmin = list_ex (\<lambda>collab. collab_user collab = actor \<and> collab_role collab = Admin)
                          (collaborators w)
          in if \<not> isOwner \<and> \<not> isAdmin then (Inl Forbidden403, d)
             else
               let (w', inviteCode') = generateInviteCode w code
               in if codeTaken d i inviteCode' then (Inl ServerError500, d)
                  else (Inr inviteCode', saveWishlist d w'))"

section \<open>Product routes (routes/products.js)\<close>

text \<open>The validators of the product schema (\<open>product.save()\<close>): \<open>name\<close> required, at most
  200 characters; \<open>description\<close> at most 1000; \<open>price\<close> at least 0; \<open>currency\<close> at most 3;
  \<open>category\<close> at most 50; \<open>brand\<close> at most 100. \<open>priority\<close> and \<open>status\<close> are enums.\<close>

definition validProduct :: "('n::{zero,one,plus,ord}) product \<Rightarrow> bool" where
  "validProduct p =
     (name p \<noteq> [] \<and> length (name p) \<le> 200 \<and> optLen (p_description p) 1000
      \<and> (case price p of None \<Rightarrow> True | Some v \<Rightarrow> 0 \<le> v)
      \<and> length (currency p) \<le> 3 \<and> optLen (category p) 50 \<and> optLen (brand p) 100)"

text \<open>The comment schema: \<open>text\<close> required, trimmed, at most 500 characters.\<close>

definition validComment :: "comment \<Rightarrow> bool" where
  "validComment c = (comment_text c \<noteq> [] \<and> length (comment_text c) \<le> 500)"

text \<open>The reaction schema: \<open>emoji\<close> is one of eight symbols, here as their UTF-16 code
  units (red heart, thumbs up, thumbs down, heart eyes, thinking face, money bag, fire,
  star).\<close>

definition allowedEmoji :: "jsString list" where
  "allowedEmoji =
     [[0x2764, 0xFE0F],
      [0xD83D, 0xDC4D],
      [0xD83D, 0xDC4E],
      [0xD83D, 0xDE0D],
      [0xD83E, 0xDD14],
      [0xD83D, 0xDCB0],
      [0xD83D, 0xDD25],
      [0x2B50]]"

definition validReaction :: "reaction \<Rightarrow> bool" where
  "validReaction r = (emoji r \<in> set allowedEmoji)"

text \<open>\<open>product.save()\<close> of a loaded document validates the whole document: its own
  paths and every embedded comment and reaction.\<close>

definition validProductDoc :: "('n::{zero,one,plus,ord}) product \<Rightarrow> bool" where
  "validProductDoc p =
     (validProduct p \<and> list_all validComment (comments p) \<and> list_all validReaction (reactions p))"

text \<open>GET /api/products/wishlist/:wishlistId. The collection is in insertion order, so
  \<open>sort({ createdAt: -1 })\<close> is the reversal.\<close>

definition getProducts :: "('n::{zero,one,plus,ord}) db \<Rightarrow> wishlistId \<Rightarrow> userId \<Rightarrow> (error + 'n product list) \<times> 'n db" where
  "getProducts d i actor =
     (case findWishlistById d i of
        None \<Rightarrow> (Inl NotFound404, d)
      | Some w \<Rightarrow>
          let hasAccess = (owner w = actor
                 \<or> list_ex (\<lambda>collab. collab_user collab = actor) (collaborators w)
                 \<or> isPublic w = Some True)
          in if \<not> hasAccess then (Inl Forbidden403, d)
             else (Inr (rev (filter (\<lambda>p. wishlist p = i) (productDocs d))), d))"

text \<open>POST /api/products\<close>

record 'n addProductBody =
  ap_name :: "jsString option"
  ap_description :: "jsString option"
  ap_price :: "'n option"
  ap_currency :: "jsString option"
  ap_imageUrl :: "jsString option"
  ap_productUrl :: "jsString option"
  ap_category :: "jsString option"
  ap_brand :: "jsString option"
  ap_wishlistId :: "wishlistId option"
  ap_priority :: "priority option"
  ap_tags :: "jsString list option"

definition addProduct :: "('n::{zero,one,plus,ord}) db \<Rightarrow> userId \<Rightarrow> 'n addProductBody \<Rightarrow> (error + 'n product) \<times> 'n db" where
  "addProduct d actor body =
     (case ap_wishlistId body of
        None \<Rightarrow> (Inl NotFound404, d)
      | Some wishlistId \<Rightarrow>
     (case findWishlistById d wishlistId of
        None \<Rightarrow> (Inl NotFound404, d)
      | Some w \<Rightarrow>
          let canAdd = (owner w = actor
                 \<or> list_ex (\<lambda>collab. collab_user collab = actor
                                \<and> collab_role collab \<in> set [Editor, Admin]) (collaborators w))
          in if \<not> canAdd then (Inl Forbidden403, d)
             else
               let p = \<lparr>product_id = freshProductId d,
                        name = (case ap_name body of None \<Rightarrow> [] | Some n \<Rightarrow> trim n),
                        p_description = map_option trim (ap_description body),
                        price = ap_price body,
                        currency = (case ap_currency body of
                                      None \<Rightarrow> js ''USD''
                                    | Some c \<Rightarrow> if c = [] then js ''USD'' else c),
                        imageUrl = map_option trim (ap_imageUrl body),
                        productUrl = map_option trim (ap_productUrl body),
                        category = map_option trim (ap_category body),
                        brand = map_option trim (ap_brand body),
                        wishlist = wishlistId,
                        addedBy = actor,
                        p_priority = (case ap_priority body of None \<Rightarrow> Medium | Some q \<Rightarrow> q),
                        p_status = Wanted,
                        purchasedBy = None,
                        purchasedAt = None,
                        comments = [],
                        reactions = [],
                        p_tags = (case ap_tags body of None \<Rightarrow> [] | Some ts \<Rightarrow> map trim ts)\<rparr>
               in if \<not> validProduct p then (Inl ServerError500, d)
                  else
                    let d1 = insertProduct d p;
                        w1 = w\<lparr>products := products w @ [product_id p]\<rparr>;
                        w2 = calculateTotalValue d1 w1
                    in (Inr p, saveWishlist d1 w2)))"

text \<open>PUT /api/products/:id. The request body is handed to \<open>findByIdAndUpdate\<close> as the
  update document: its plain keys are the fields to set, and the fields of a top-level
  \<open>$set\<close> key are set as well (a plain key wins over the same key under \<open>$set\<close>). Other
  update operators are not modelled. The values are taken as already cast to the type
  of their path.\<close>

datatype 'n productUpdate =
    SetName jsString
  | SetDescription jsString
  | SetPrice "'n option"
  | SetCurrency jsString
  | SetImageUrl jsString
  | SetProductUrl jsString
  | SetCategory jsString
  | SetBrand jsString
  | SetWishlist wishlistId
  | SetAddedBy userId
  | SetPriority priority
  | SetStatus status
  | SetPurchasedBy "userId option"
  | SetPurchasedAt "timestamp option"
  | SetComments "comment list"
  | SetReactions "reaction list"
  | SetTags "jsString list"

fun updateKey :: "('n::{zero,one,plus,ord}) productUpdate \<Rightarrow> string" where
  "updateKey (SetName _) = ''name''"
| "updateKey (SetDescription _) = ''description''"
| "updateKey (SetPrice _) = ''price''"
| "updateKey (SetCurrency _) = ''currency''"
| "updateKey (SetImageUrl _) = ''imageUrl''"
| "updateKey (SetProductUrl _) = ''productUrl''"
| "updateKey (SetCategory _) = ''category''"
| "updateKey (SetBrand _) = ''brand''"
| "updateKey (SetWishlist _) = ''wishlist''"
| "updateKey (SetAddedBy _) = ''addedBy''"
| "updateKey (SetPriority _) = ''priority''"
| "updateKey (SetStatus _) = ''status''"
| "updateKey (SetPurchasedBy _) = ''purchasedBy''"
| "updateKey (SetPurchasedAt _) = ''purchasedAt''"
| "updateKey (SetComments _) = ''comments''"
| "updateKey (SetReactions _) = ''reactions''"
| "updateKey (SetTags _) = ''tags''"

record 'n updateProductBody =
  plainKeys :: "'n productUpdate list"
  dollarSet :: "'n productUpdate list"

text \<open>\<open>delete updates.k\<close> removes the plain key \<open>k\<close> of the body.\<close>

definition deleteKey :: "string \<Rightarrow> ('n::{zero,one,plus,ord}) updateProductBody \<Rightarrow> 'n updateProductBody" where
  "deleteKey k b = b\<lparr>plainKeys := filter (\<lambda>u. updateKey u \<noteq> k) (plainKeys b)\<rparr>"

text \<open>The setters of the comment schema (\<open>trim\<close> on \<open>text\<close>) apply to the comments of an
  update as well.\<close>

definition trimComment :: "comment \<Rightarrow> comment" where
  "trimComment c = c\<lparr>comment_text := trim (comment_text c)\<rparr>"

fun applyUpdate :: "('n::{zero,one,plus,ord}) product \<Rightarrow> 'n productUpdate \<Rightarrow> 'n product" where
  "applyUpdate p (SetName s) = p\<lparr>name := trim s\<rparr>"
| "applyUpdate p (SetDescription s) = p\<lparr>p_description := Some (trim s)\<rparr>"
| "applyUpdate p (SetPrice v) = p\<lparr>price := v\<rparr>"
| "applyUpdate p (SetCurrency s) = p\<lparr>currency := s\<rparr>"
| "applyUpdate p (SetImageUrl s) = p\<lparr>imageUrl := Some (trim s)\<rparr>"
| "applyUpdate p (SetProductUrl s) = p\<lparr>productUrl := Some (trim s)\<rparr>"
| "applyUpdate p (SetCategory s) = p\<lparr>category := Some (trim s)\<rparr>"
| "applyUpdate p (SetBrand s) = p\<lparr>brand := Some (trim s)\<rparr>"
| "applyUpdate p (SetWishlist i) = p\<lparr>wishlist := i\<rparr>"
| "applyUpdate p (SetAddedBy u) = p\<lparr>addedBy := u\<rparr>"
| "applyUpdate p (SetPriority q) = p\<lparr>p_priority := q\<rparr>"
| "applyUpdate p (SetStatus s) = p\<lparr>p_status := s\<rparr>"
| "applyUpdate p (SetPurchasedBy u) = p\<lparr>purchasedBy := u\<rparr>"
| "applyUpdate p (SetPurchasedAt t) = p\<lparr>purchasedAt := t\<rparr>"
| "applyUpdate p (SetComments cs) = p\<lparr>comments := map trimComment cs\<rparr>"
| "applyUpdate p (SetReactions rs) = p\<lparr>reactions := rs\<rparr>"
| "applyUpdate p (SetTags ts) = p\<lparr>p_tags := map trim ts\<rparr>"

text \<open>\<open>runValidators: true\<close>: the validators of each path that is set.\<close>

fun updateValid :: "('n::{zero,one,plus,ord}) productUpdate \<Rightarrow> bool" where
  "updateValid (SetName s) = (trim s \<noteq> [] \<and> length (trim s) \<le> 200)"
| "updateValid (SetDescription s) = (length (trim s) \<le> 1000)"
| "updateValid (SetPrice v) = (case v of None \<Rightarrow> True | Some x \<Rightarrow> 0 \<le> x)"
| "updateValid (SetCurrency s) = (length s \<le> 3)"
| "updateValid (SetCategory s) = (length (trim s) \<le> 50)"
| "updateValid (SetBrand s) = (length (trim s) \<le> 100)"
| "updateValid (SetComments cs) = list_all validComment (map trimComment cs)"
| "updateValid (SetReactions rs) = list_all validReaction rs"
| "updateValid _ = True"

text \<open>\<open>findByIdAndUpdate\<close>: \<open>None\<close> when the call throws (a validator fails), otherwise
  the document after the update (\<open>null\<close> when no document has the id) and the store.\<close>

definition findProductByIdAndUpdate ::
  "('n::{zero,one,plus,ord}) db \<Rightarrow> productId \<Rightarrow> 'n updateProductBody \<Rightarrow> ('n product option \<times> 'n db) option" where
  "findProductByIdAndUpdate d i updates =
     (let sets = dollarSet updates @ plainKeys updates
      in if \<not> list_all updateValid sets then None
         else (case findProductById d i of
                 None \<Rightarrow> Some (None, d)
               | Some p \<Rightarrow> Some (Some (foldl applyUpdate p sets),
                                  saveProduct d (foldl applyUpdate p sets))))"

definition updateProduct ::
  "('n::{zero,one,plus,ord}) db \<Rightarrow> productId \<Rightarrow> userId \<Rightarrow> 'n updateProductBody \<Rightarrow> (error + 'n product option) \<times> 'n db" where
  "updateProduct d i actor body =
     (case findProductById d i of
        None \<Rightarrow> (Inl NotFound404, d)
      | Some p \<Rightarrow>
     (case findWishlistById d (wishlist p) of
        None \<Rightarrow> (Inl ServerError500, d)
      | Some w \<Rightarrow>
          let canEdit = (owner w = actor
                 \<or> addedBy p = actor
                 \<or> list_ex (\<lambda>collab. collab_user collab = actor
                                \<and> collab_role collab \<in> set [Editor, Admin]) (collaborators w))
          in if \<not> canEdit then (Inl Forbidden403, d)
             else
               let updates = deleteKey ''addedBy'' (deleteKey ''wishlist'' body)
               in (case findProductByIdAndUpdate d i updates of
                     None \<Rightarrow> (Inl ServerError500, d)
                   | Some (updatedProduct, d1) \<Rightarrow>
                       (Inr updatedProduct, saveWishlist d1 (calculateTotalValue d1 w)))))"

text \<open>DELETE /api/products/:id. The removal of the stored image is a call to the
  external image service whose failure is ignored; it does not touch the store.\<close>

definition findProductByIdAndDelete :: "('n::{zero,one,plus,ord}) db \<Rightarrow> productId \<Rightarrow> 'n db" where
  "findProductByIdAndDelete d i = d\<lparr>productDocs := filter (\<lambda>p. product_id p \<noteq> i) (productDocs d)\<rparr>"

definition deleteProduct :: "('n::{zero,one,plus,ord}) db \<Rightarrow> productId \<Rightarrow> userId \<Rightarrow> (error + unit) \<times> 'n db" where
  "deleteProduct d i actor =
     (case findProductById d i of
        None \<Rightarrow> (Inl NotFound404, d)
      | Some p \<Rightarrow>
     (case findWishlistById d (wishlist p) of
        None \<Rightarrow> (Inl ServerError500, d)
      | Some w \<Rightarrow>
          let canDelete = (owner w = actor
                 \<or> addedBy p = actor
                 \<or> list_ex (\<lambda>collab. collab_user collab = actor
                                \<and> collab_role collab \<in> set [Admin]) (collaborators w))
          in if \<not> canDelete then (Inl Forbidden403, d)
             else
               let w1 = w\<lparr>products := filter (\<lambda>x. x \<noteq> product_id p) (products w)\<rparr>;
                   w2 = calculateTotalValue d w1;
                   d1 = saveWishlist d w2
               in (Inr (), findProductByIdAndDelete d1 i)))"

text \<open>POST /api/products/:id/comments\<close>

definition addComment :: "('n::{zero,one,plus,ord}) db \<Rightarrow> productId \<Rightarrow> userId \<Rightarrow> jsString option \<Rightarrow> timestamp \<Rightarrow> (error + comment) \<times> 'n db" where
  "addComment d i actor txt now =
     (case findProductById d i of
        None \<Rightarrow> (Inl NotFound404, d)
      | Some p \<Rightarrow>
     (case findWishlistById d (wishlist p) of
        None \<Rightarrow> (Inl ServerError500, d)
      | Some w \<Rightarrow>
          let hasAccess = (owner w = actor
                 \<or> list_ex (\<lambda>collab. collab_user collab = actor) (collaborators w)
                 \<or> isPublic w = Some True)
          in if \<not> hasAccess then (Inl Forbidden403, d)
             else
               let c = \<lparr>comment_user = actor,
                        comment_text = (case txt of None \<Rightarrow> [] | Some t \<Rightarrow> trim t),
                        comment_createdAt = now\<rparr>;
                   p' = p\<lparr>comments := comments p @ [c]\<rparr>
               in if \<not> validProductDoc p' then (Inl ServerError500, d)
                  else (Inr (last (comments p')), saveProduct d p')))"

text \<open>POST /api/products/:id/reactions\<close>

definition addReaction :: "('n::{zero,one,plus,ord}) db \<Rightarrow> productId \<Rightarrow> userId \<Rightarrow> jsString option \<Rightarrow> timestamp \<Rightarrow> (error + reaction) \<times> 'n db" where
  "addReaction d i actor em now =
     (case findProductById d i of
        None \<Rightarrow> (Inl NotFound404, d)
      | Some p \<Rightarrow>
     (case findWishlistById d (wishlist p) of
        None \<Rightarrow> (Inl ServerError500, d)
      | Some w \<Rightarrow>
          let hasAccess = (owner w = actor
                 \<or> list_ex (\<lambda>collab. collab_user collab = actor) (collaborators w)
                 \<or> isPublic w = Some True)
          in if \<not> hasAccess then (Inl Forbidden403, d)
             else
               let p1 = p\<lparr>reactions := filter (\<lambda>reaction. reaction_user reaction \<noteq> actor) (reactions p)\<rparr>
               in (case em of
                     None \<Rightarrow> (Inl ServerError500, d)
                   | Some e \<Rightarrow>
                       let r = \<lparr>reaction_user = actor, emoji = e, reaction_createdAt = now\<rparr>;
                           p2 = p1\<lparr>reactions := reactions p1 @ [r]\<rparr>
                       in if \<not> validProductDoc p2 then (Inl ServerError500, d)
                          else (Inr (last (reactions p2)), saveProduct d p2))))"


section \<open>Request sequences\<close>



text \<open>Sequences of the four requests that touch the invite code, run from a store. Two
  histories are read off a run: the wishlists on which generate-invite succeeded, and the
  wishlists that were created public or switched to public by a successful update.
  \<open>booleanIsPublic\<close> holds of a request whose body gives \<open>isPublic\<close> as a JSON boolean or
  not at all.\<close>

datatype 'n request =
    CreateWishlist userId "'n createWishlistBody" jsString
  | UpdateWishlist wishlistId userId "'n updateWishlistBody" jsString
  | GenerateInvite wishlistId userId jsString
  | JoinWishlist jsString userId timestamp

fun handle :: "('n::{zero,one,plus,ord}) db \<Rightarrow> 'n request \<Rightarrow> 'n db" where
  "handle d (CreateWishlist actor body code) = snd (createWishlist d actor body code)"
| "handle d (UpdateWishlist i actor body code) = snd (updateWishlist d i actor body code)"
| "handle d (GenerateInvite i actor code) = snd (generateInvite d i actor code)"
| "handle d (JoinWishlist c actor now) = snd (joinWishlist d c actor now)"

fun run :: "('n::{zero,one,plus,ord}) db \<Rightarrow> 'n request list \<Rightarrow> 'n db" where
  "run d [] = d"
| "run d (r # rs) = run (handle d r) rs"

fun generatedBy :: "('n::{zero,one,plus,ord}) db \<Rightarrow> 'n request \<Rightarrow> wishlistId list" where
  "generatedBy d (GenerateInvite i actor code) =
     (case fst (generateInvite d i actor code) of Inl _ \<Rightarrow> [] | Inr _ \<Rightarrow> [i])"
| "generatedBy d _ = []"

fun madePublicBy :: "('n::{zero,one,plus,ord}) db \<Rightarrow> 'n request \<Rightarrow> wishlistId list" where
  "madePublicBy d (CreateWishlist actor body code) =
     (case fst (createWishlist d actor body code) of
        Inl _ \<Rightarrow> []
      | Inr w \<Rightarrow> if isPublic w = Some True then [wishlist_id w] else [])"
| "madePublicBy d (UpdateWishlist i actor body code) =
     (case fst (updateWishlist d i actor body code) of
        Inl _ \<Rightarrow> []
      | Inr w \<Rightarrow>
          if (case uw_isPublic body of None \<Rightarrow> False | Some v \<Rightarrow> castBoolean v = Some (Some True))
          then [i] else [])"
| "madePublicBy d _ = []"

definition booleanOrAbsent :: "('n::{zero,one,plus,ord}) json option \<Rightarrow> bool" where
  "booleanOrAbsent x =
     (case x of None \<Rightarrow> True | Some v \<Rightarrow> (case v of JBool _ \<Rightarrow> True | _ \<Rightarrow> False))"

fun booleanIsPublic :: "('n::{zero,one,plus,ord}) request \<Rightarrow> bool" where
  "booleanIsPublic (CreateWishlist actor body code) = booleanOrAbsent (cw_isPublic body)"
| "booleanIsPublic (UpdateWishlist i actor body code) = booleanOrAbsent (uw_isPublic body)"
| "booleanIsPublic _ = True"

fun explicitlyGenerated :: "('n::{zero,one,plus,ord}) db \<Rightarrow> 'n request list \<Rightarrow> wishlistId list" where
  "explicitlyGenerated d [] = []"
| "explicitlyGenerated d (r # rs) = generatedBy d r @ explicitlyGenerated (handle d r) rs"

fun everMadePublic :: "('n::{zero,one,plus,ord}) db \<Rightarrow> 'n request list \<Rightarrow> wishlistId list" where
  "everMadePublic d [] = []"
| "everMadePublic d (r # rs) = madePublicBy d r @ everMadePublic (handle d r) rs"

definition emptyDb :: "('n::{zero,one,plus,ord}) db" where
  "emptyDb = \<lparr>wishlistDocs = [], productDocs = []\<rparr>"

section \<open>Example data\<close>

text \<open>A private wishlist of user 10 with an editor (11), an admin (12) and a viewer (13),
  holding three products priced 10, none and 25; its stored total is stale. User 99 is
  no member.\<close>

definition exWishlist :: "real wishlist" where
  "exWishlist =
     \<lparr>wishlist_id = 1, title = js ''birthday'', description = None, owner = 10,
      collaborators = [\<lparr>collab_user = 11, collab_role = Editor, joinedAt = 5\<rparr>,
                       \<lparr>collab_user = 12, collab_role = Admin, joinedAt = 6\<rparr>,
                       \<lparr>collab_user = 13, collab_role = Viewer, joinedAt = 7\<rparr>],
      products = [1, 2, 3], isPublic = Some False, inviteCode = Some (js ''k3x9''), tags = [],
      totalValue = 0\<rparr>"

definition exProduct :: "productId \<Rightarrow> real option \<Rightarrow> real product" where
  "exProduct i v =
     \<lparr>product_id = i, name = js ''item'', p_description = None, price = v,
      currency = js ''USD'', imageUrl = None, productUrl = None, category = None,
      brand = None, wishlist = 1, addedBy = 10, p_priority = Medium, p_status = Wanted,
      purchasedBy = None, purchasedAt = None,
      comments = [\<lparr>comment_user = 11, comment_text = js ''nice'', comment_createdAt = 8\<rparr>],
      reactions = [], p_tags = []\<rparr>"

definition exDb :: "real db" where
  "exDb = \<lparr>wishlistDocs = [exWishlist],
           productDocs = [exProduct 1 (Some 10), exProduct 2 None, exProduct 3 (Some 25)]\<rparr>"

definition exAddBody :: "real addProductBody" where
  "exAddBody =
     \<lparr>ap_name = Some (js ''lamp''), ap_description = None, ap_price = Some 5,
      ap_currency = None, ap_imageUrl = None, ap_productUrl = None, ap_category = None,
      ap_brand = None, ap_wishlistId = Some 1, ap_priority = None, ap_tags = None\<rparr>"




text \<open>Create a public wishlist, then switch it back to private.\<close>

definition flipBackRequests :: "real request list" where
  "flipBackRequests =
     [CreateWishlist 10 \<lparr>cw_title = Some (js ''gifts''), cw_description = None,
                         cw_isPublic = Some (JBool True), cw_tags = None\<rparr> (js ''k3x9''),
      UpdateWishlist 1 10 \<lparr>uw_title = None, uw_description = None,
                           uw_isPublic = Some (JBool False), uw_tags = None\<rparr> (js ''zz'')]"

section \<open>Lemmas about the store\<close>

lemma find_replace_hit:
  "find (\<lambda>x. key x = k) xs = Some y \<Longrightarrow> key v = k \<Longrightarrow>
   find (\<lambda>x. key x = k) (map (\<lambda>x. if key x = k then v else x) xs) = Some v"
  by (induction xs) (auto split: if_splits)

lemma find_replace_miss:
  "key v = k \<Longrightarrow> j \<noteq> k \<Longrightarrow>
   find (\<lambda>x. key x = j) (map (\<lambda>x. if key x = k then v else x) xs) = find (\<lambda>x. key x = j) xs"
  by (induction xs) auto

lemma find_filter_other:
  "j \<noteq> k \<Longrightarrow> find (\<lambda>x. key x = j) (filter (\<lambda>x. key x \<noteq> k) xs) = find (\<lambda>x. key x = j) xs"
  by (induction xs) auto

lemma find_filter_same:
  "find (\<lambda>x. key x = k) (filter (\<lambda>x. key x \<noteq> k) xs) = None"
  by (induction xs) auto

lemma find_key: "find (\<lambda>x. key x = k) xs = Some y \<Longrightarrow> key y = k \<and> y \<in> set xs"
  by (induction xs) (auto split: if_splits)

lemma find_replace_pred:
  "find Q xs = Some y \<Longrightarrow> Q v \<Longrightarrow>
   find Q (map (\<lambda>x. if key x = key y then v else x) xs) = Some v"
  by (induction xs) (auto split: if_splits)

lemma findWishlistById_id: "findWishlistById d i = Some w \<Longrightarrow> wishlist_id w = i"
  unfolding findWishlistById_def by (drule find_key) simp

lemma findProductById_id: "findProductById d i = Some p \<Longrightarrow> product_id p = i"
  unfolding findProductById_def by (drule find_key) simp

lemma findWishlistById_saveWishlist_same:
  "findWishlistById d i = Some w0 \<Longrightarrow> wishlist_id w = i \<Longrightarrow>
   findWishlistById (saveWishlist d w) i = Some w"
  unfolding findWishlistById_def saveWishlist_def
  by (simp add: find_replace_hit)

lemma findWishlistById_saveWishlist_other:
  "j \<noteq> wishlist_id w \<Longrightarrow> findWishlistById (saveWishlist d w) j = findWishlistById d j"
  unfolding findWishlistById_def saveWishlist_def
  by (simp add: find_replace_miss)

lemma productDocs_saveWishlist: "productDocs (saveWishlist d w) = productDocs d"
  by (simp add: saveWishlist_def)

lemma wishlistDocs_saveProduct: "wishlistDocs (saveProduct d p) = wishlistDocs d"
  by (simp add: saveProduct_def)

lemma findProductById_saveWishlist: "findProductById (saveWishlist d w) i = findProductById d i"
  by (simp add: findProductById_def saveWishlist_def)



lemma map_filter_eq_on:
  "(\<And>x. x \<in> set xs \<Longrightarrow> f x = g x) \<Longrightarrow> List.map_filter f xs = List.map_filter g xs"
  by (induction xs) (auto simp: map_filter_simps split: option.splits)

lemma populate_saveWishlist: "populate (saveWishlist d w) ids = populate d ids"
  unfolding populate_def
  by (rule map_filter_eq_on) (simp add: findProductById_saveWishlist)

lemma products_calculateTotalValue: "products (calculateTotalValue d w) = products w"
  by (simp add: calculateTotalValue_def)

lemma wishlist_id_calculateTotalValue: "wishlist_id (calculateTotalValue d w) = wishlist_id w"
  by (simp add: calculateTotalValue_def)

lemma populate_delete_other:
  "i \<notin> set ids \<Longrightarrow> populate (findProductByIdAndDelete d i) ids = populate d ids"
proof -
  assume notin: "i \<notin> set ids"
  have "findProductById (findProductByIdAndDelete d i) x = findProductById d x"
    if "x \<in> set ids" for x
  proof -
    from that notin have "x \<noteq> i" by auto
    then show ?thesis
      by (simp add: findProductById_def findProductByIdAndDelete_def find_filter_other)
  qed
  then show ?thesis
    unfolding populate_def by (rule map_filter_eq_on)
qed

lemma findWishlistById_findProductByIdAndDelete:
  "findWishlistById (findProductByIdAndDelete d i) j = findWishlistById d j"
  by (simp add: findWishlistById_def findProductByIdAndDelete_def)

subsection \<open>String literals\<close>

lemma js_inject [simp]: "(js a = js b) = (a = b)"
proof -
  have "inj (of_char :: char \<Rightarrow> nat)" by (simp add: inj_def)
  then show ?thesis by (simp add: js_def inj_map_eq_map)
qed

lemma js_Nil [simp]: "(js a = []) = (a = [])"
  by (simp add: js_def)

lemma length_js [simp]: "length (js a) = length a"
  by (simp add: js_def)

subsection \<open>The example store\<close>

lemma exDb_wishlist: "findWishlistById exDb 1 = Some exWishlist"
  by (simp add: findWishlistById_def exDb_def exWishlist_def)

lemma exDb_product1: "findProductById exDb 1 = Some (exProduct 1 (Some 10))"
  by (simp add: findProductById_def exDb_def exProduct_def)

lemma exDb_product2: "findProductById exDb 2 = Some (exProduct 2 None)"
  by (simp add: findProductById_def exDb_def exProduct_def)

lemma exDb_product3: "findProductById exDb 3 = Some (exProduct 3 (Some 25))"
  by (simp add: findProductById_def exDb_def exProduct_def)

lemma exProduct_refs: "wishlist (exProduct i v) = 1 \<and> addedBy (exProduct i v) = 10"
  by (simp add: exProduct_def)

lemma exDb_invite: "findWishlistByInviteCode exDb (js ''k3x9'') = Some exWishlist"
  by (simp add: findWishlistByInviteCode_def exDb_def exWishlist_def)

lemma exDb_no_invite: "findWishlistByInviteCode exDb (js ''nope'') = None"
  by (simp add: findWishlistByInviteCode_def exDb_def exWishlist_def)

lemma trim_gifts: "trim (js ''gifts'') = js ''gifts''"
  by (simp add: trim_def isSpace_def js_def)

section \<open>Access to a wishlist\<close>

text \<open>
  C1. For a stored wishlist \<open>W\<close> and an actor \<open>A\<close>, get-wishlist, list-products and the gate
  of add-comment and add-reaction (on any product of \<open>W\<close>) let the request through exactly
  when \<open>A\<close> is the owner, or appears among the collaborators with any role, or \<open>W\<close> is
  public. Otherwise the response is 403 and the store is as before
\<close>

theorem C1_view_access:
  assumes W: "findWishlistById d i = Some W"
  shows "(if owner W = A \<or> A \<in> collab_user ` set (collaborators W) \<or> isPublic W = Some True
          then getWishlist d i A = (Inr (W, populate d (products W)), d)
             \<and> getProducts d i A = (Inr (rev (filter (\<lambda>p. wishlist p = i) (productDocs d))), d)
             \<and> (\<forall>pid P txt em now. findProductById d pid = Some P \<and> wishlist P = i \<longrightarrow>
                   fst (addComment d pid A txt now) \<noteq> Inl Forbidden403
                 \<and> fst (addReaction d pid A em now) \<noteq> Inl Forbidden403)
          else getWishlist d i A = (Inl Forbidden403, d)
             \<and> getProducts d i A = (Inl Forbidden403, d)
             \<and> (\<forall>pid P txt em now. findProductById d pid = Some P \<and> wishlist P = i \<longrightarrow>
                   addComment d pid A txt now = (Inl Forbidden403, d)
                 \<and> addReaction d pid A em now = (Inl Forbidden403, d)))"
  using W
  by (auto simp: getWishlist_def getProducts_def addComment_def addReaction_def Let_def list_ex_iff
           split: option.splits)

theorem C1_view_access_witness:
  "getWishlist exDb 1 99 = (Inl Forbidden403, exDb)
 \<and> getProducts exDb 1 99 = (Inl Forbidden403, exDb)
 \<and> addComment exDb 2 99 (Some (js ''hi'')) 20 = (Inl Forbidden403, exDb)
 \<and> addReaction exDb 2 99 None 20 = (Inl Forbidden403, exDb)
 \<and> getWishlist exDb 1 13 = (Inr (exWishlist, populate exDb (products exWishlist)), exDb)
 \<and> fst (addComment exDb 2 13 (Some (js ''hi'')) 20) \<noteq> Inl Forbidden403"
proof -
  have deny: "\<not> (owner exWishlist = 99 \<or> 99 \<in> collab_user ` set (collaborators exWishlist)
                 \<or> isPublic exWishlist = Some True)"
    by (simp add: exWishlist_def)
  have allow: "owner exWishlist = 13 \<or> 13 \<in> collab_user ` set (collaborators exWishlist)
                 \<or> isPublic exWishlist = Some True"
    by (simp add: exWishlist_def)
  have P: "findProductById exDb 2 = Some (exProduct 2 None) \<and> wishlist (exProduct 2 None) = 1"
    using exDb_product2 exProduct_refs by simp
  from C1_view_access[OF exDb_wishlist, of 99]
  have a: "getWishlist exDb 1 99 = (Inl Forbidden403, exDb)
         \<and> getProducts exDb 1 99 = (Inl Forbidden403, exDb)
         \<and> (\<forall>pid P txt em now. findProductById exDb pid = Some P \<and> wishlist P = 1 \<longrightarrow>
                   addComment exDb pid 99 txt now = (Inl Forbidden403, exDb)
                 \<and> addReaction exDb pid 99 em now = (Inl Forbidden403, exDb))"
    using deny by simp
  from C1_view_access[OF exDb_wishlist, of 13]
  have b: "getWishlist exDb 1 13 = (Inr (exWishlist, populate exDb (products exWishlist)), exDb)
         \<and> (\<forall>pid P txt em now. findProductById exDb pid = Some P \<and> wishlist P = 1 \<longrightarrow>
                   fst (addComment exDb pid 13 txt now) \<noteq> Inl Forbidden403
                 \<and> fst (addReaction exDb pid 13 em now) \<noteq> Inl Forbidden403)"
    using allow by simp
  show ?thesis using a b P by blast
qed

section \<open>Roles on products\<close>

text \<open>Join keeps the collaborators of a wishlist free of repeated users.\<close>

lemma joinWishlist_distinct_collaborators:
  assumes "findWishlistByInviteCode d c = Some W" "distinct (map collab_user (collaborators W))"
      and "joinWishlist d c A now = (Inr W', d')"
  shows "distinct (map collab_user (collaborators W'))"
  using assms by (auto simp: joinWishlist_def Let_def list_ex_iff split: if_splits)

text \<open>
  C2. For a stored product \<open>P\<close> of a stored wishlist \<open>W\<close> whose collaborators name each user
  once: delete-product succeeds exactly when the actor is the owner of \<open>W\<close>, the creator of
  \<open>P\<close>, or a collaborator with role admin, and a refused delete answers 403 and leaves the
  store as it was. A collaborator who is neither owner nor creator passes the check of
  add-product and update-product with role editor but is refused by delete-product; with
  role admin the delete succeeds
\<close>

theorem C2_role_asymmetry:
  assumes P: "findProductById d pid = Some P"
      and W: "findWishlistById d (wishlist P) = Some W"
      and uniq: "distinct (map collab_user (collaborators W))"
  shows "((fst (deleteProduct d pid A) = Inr ()) =
            (A = owner W \<or> A = addedBy P
             \<or> (\<exists>c \<in> set (collaborators W). collab_user c = A \<and> collab_role c = Admin)))
       \<and> (fst (deleteProduct d pid A) \<noteq> Inr () \<longrightarrow> deleteProduct d pid A = (Inl Forbidden403, d))
       \<and> (\<forall>c \<in> set (collaborators W). collab_user c = A \<and> A \<noteq> owner W \<and> A \<noteq> addedBy P \<longrightarrow>
             (collab_role c = Editor \<longrightarrow>
                 (\<forall>body. ap_wishlistId body = Some (wishlist P) \<longrightarrow>
                           fst (addProduct d A body) \<noteq> Inl Forbidden403)
               \<and> (\<forall>body. fst (updateProduct d pid A body) \<noteq> Inl Forbidden403)
               \<and> deleteProduct d pid A = (Inl Forbidden403, d))
           \<and> (collab_role c = Admin \<longrightarrow> fst (deleteProduct d pid A) = Inr ()))"
proof -
  have del: "(fst (deleteProduct d pid A) = Inr ()) =
            (A = owner W \<or> A = addedBy P
             \<or> (\<exists>c \<in> set (collaborators W). collab_user c = A \<and> collab_role c = Admin))"
    using P W by (auto simp: deleteProduct_def Let_def list_ex_iff)
  have deny: "fst (deleteProduct d pid A) \<noteq> Inr () \<longrightarrow> deleteProduct d pid A = (Inl Forbidden403, d)"
    using P W by (auto simp: deleteProduct_def Let_def list_ex_iff)
  have roles: "collab_role c' = collab_role c"
    if "c \<in> set (collaborators W)" "c' \<in> set (collaborators W)" "collab_user c' = collab_user c" for c c'
    using that uniq by (metis distinct_map inj_onD)
  have ed: "(\<forall>body. ap_wishlistId body = Some (wishlist P) \<longrightarrow>
                           fst (addProduct d A body) \<noteq> Inl Forbidden403)
               \<and> (\<forall>body. fst (updateProduct d pid A body) \<noteq> Inl Forbidden403)
               \<and> deleteProduct d pid A = (Inl Forbidden403, d)"
    if c: "c \<in> set (collaborators W)" "collab_user c = A" "A \<noteq> owner W" "A \<noteq> addedBy P"
          "collab_role c = Editor" for c
  proof -
    have noadmin: "\<not> (\<exists>c' \<in> set (collaborators W). collab_user c' = A \<and> collab_role c' = Admin)"
      using roles[OF c(1)] c(2,5) by auto
    have "fst (deleteProduct d pid A) \<noteq> Inr ()"
      using del noadmin c(3,4) by simp
    then have d3: "deleteProduct d pid A = (Inl Forbidden403, d)" using deny by simp
    have d1: "fst (addProduct d A body) \<noteq> Inl Forbidden403"
      if "ap_wishlistId body = Some (wishlist P)" for body
      using that W c(1,2,5)
      by (auto simp: addProduct_def Let_def list_ex_iff)
    have d2: "fst (updateProduct d pid A body) \<noteq> Inl Forbidden403" for body
      using P W c(1,2,5)
      by (auto simp: updateProduct_def Let_def list_ex_iff split: option.splits)
    show ?thesis using d1 d2 d3 by blast
  qed
  have ad: "fst (deleteProduct d pid A) = Inr ()"
    if "c \<in> set (collaborators W)" "collab_user c = A" "collab_role c = Admin" for c
    using del that by blast
  show ?thesis using del deny ed ad by blast
qed

theorem C2_role_asymmetry_witness:
  "deleteProduct exDb 1 11 = (Inl Forbidden403, exDb)
 \<and> fst (addProduct exDb 11 exAddBody) \<noteq> Inl Forbidden403
 \<and> fst (updateProduct exDb 1 11 \<lparr>plainKeys = [SetPrice (Some 12)], dollarSet = []\<rparr>) \<noteq> Inl Forbidden403
 \<and> fst (deleteProduct exDb 1 12) = Inr ()
 \<and> fst (deleteProduct exDb 1 10) = Inr ()
 \<and> fst (deleteProduct exDb 1 13) \<noteq> Inr ()"
proof -
  have P: "findProductById exDb 1 = Some (exProduct 1 (Some 10))" by (rule exDb_product1)
  have W: "findWishlistById exDb (wishlist (exProduct 1 (Some 10))) = Some exWishlist"
    using exDb_wishlist exProduct_refs by simp
  have uniq: "distinct (map collab_user (collaborators exWishlist))"
    by (simp add: exWishlist_def)
  note t = C2_role_asymmetry[OF P W uniq]
  have ed: "\<lparr>collab_user = 11, collab_role = Editor, joinedAt = 5\<rparr> \<in> set (collaborators exWishlist)"
    and ad: "\<lparr>collab_user = 12, collab_role = Admin, joinedAt = 6\<rparr> \<in> set (collaborators exWishlist)"
    by (simp_all add: exWishlist_def)
  have o: "owner exWishlist = 10" by (simp add: exWishlist_def)
  have b: "ap_wishlistId exAddBody = Some (wishlist (exProduct 1 (Some 10)))"
    by (simp add: exAddBody_def exProduct_def)
  have e1: "deleteProduct exDb 1 11 = (Inl Forbidden403, exDb)
          \<and> fst (addProduct exDb 11 exAddBody) \<noteq> Inl Forbidden403
          \<and> fst (updateProduct exDb 1 11 \<lparr>plainKeys = [SetPrice (Some 12)], dollarSet = []\<rparr>)
               \<noteq> Inl Forbidden403"
    using t[of 11] ed o b exProduct_refs[of 1 "Some 10"] by fastforce
  have e2: "fst (deleteProduct exDb 1 12) = Inr ()"
    using t[of 12] ad o exProduct_refs[of 1 "Some 10"] by fastforce
  have e3: "fst (deleteProduct exDb 1 10) = Inr ()"
    using t[of 10] o by simp
  have e4: "fst (deleteProduct exDb 1 13) \<noteq> Inr ()"
    using t[of 13] o exProduct_refs[of 1 "Some 10"] by (simp add: exWishlist_def)
  show ?thesis using e1 e2 e3 e4 by simp
qed

section \<open>Joining by invite code\<close>

text \<open>
  C3. Join answers 404 when no wishlist has the code; 400 with the store unchanged when the
  actor owns the wishlist found or is already among its collaborators; otherwise it
  appends the one entry (actor, editor, now) to the collaborators of that wishlist,
  changes no other wishlist and no product, and a second join of the same actor with the
  same code answers 400
\<close>

theorem C3_join:
  "(findWishlistByInviteCode d c = None \<longrightarrow> joinWishlist d c A now = (Inl NotFound404, d))
 \<and> (\<forall>W. findWishlistByInviteCode d c = Some W \<longrightarrow>
       (if A = owner W \<or> A \<in> collab_user ` set (collaborators W)
        then joinWishlist d c A now = (Inl BadRequest400, d)
        else (\<exists>W' d'. joinWishlist d c A now = (Inr W', d')
               \<and> W' = W\<lparr>collaborators := collaborators W @
                           [\<lparr>collab_user = A, collab_role = Editor, joinedAt = now\<rparr>]\<rparr>
               \<and> findWishlistByInviteCode d' c = Some W'
               \<and> findWishlistById d' (wishlist_id W) = Some W'
               \<and> (\<forall>j. j \<noteq> wishlist_id W \<longrightarrow> findWishlistById d' j = findWishlistById d j)
               \<and> productDocs d' = productDocs d
               \<and> (\<forall>now'. joinWishlist d' c A now' = (Inl BadRequest400, d')))))"
proof (intro conjI allI impI)
  assume "findWishlistByInviteCode d c = None"
  then show "joinWishlist d c A now = (Inl NotFound404, d)"
    by (simp add: joinWishlist_def)
next
  fix W
  assume W: "findWishlistByInviteCode d c = Some W"
  show "if A = owner W \<or> A \<in> collab_user ` set (collaborators W)
        then joinWishlist d c A now = (Inl BadRequest400, d)
        else (\<exists>W' d'. joinWishlist d c A now = (Inr W', d')
               \<and> W' = W\<lparr>collaborators := collaborators W @
                           [\<lparr>collab_user = A, collab_role = Editor, joinedAt = now\<rparr>]\<rparr>
               \<and> findWishlistByInviteCode d' c = Some W'
               \<and> findWishlistById d' (wishlist_id W) = Some W'
               \<and> (\<forall>j. j \<noteq> wishlist_id W \<longrightarrow> findWishlistById d' j = findWishlistById d j)
               \<and> productDocs d' = productDocs d
               \<and> (\<forall>now'. joinWishlist d' c A now' = (Inl BadRequest400, d')))"
  proof (cases "A = owner W \<or> A \<in> collab_user ` set (collaborators W)")
    case True
    then show ?thesis using W
      by (auto simp: joinWishlist_def Let_def list_ex_iff)
  next
    case False
    define W' where "W' = W\<lparr>collaborators := collaborators W @
                           [\<lparr>collab_user = A, collab_role = Editor, joinedAt = now\<rparr>]\<rparr>"
    define d' where "d' = saveWishlist d W'"
    have j: "joinWishlist d c A now = (Inr W', d')"
      using W False by (auto simp: joinWishlist_def Let_def list_ex_iff W'_def d'_def)
    have code: "inviteCode W = Some c" and mem: "W \<in> set (wishlistDocs d)"
      using W unfolding findWishlistByInviteCode_def by (auto simp: find_Some_iff)
    have code': "inviteCode W' = Some c" by (simp add: W'_def code)
    have id': "wishlist_id W' = wishlist_id W" by (simp add: W'_def)
    have f1: "findWishlistByInviteCode d' c = Some W'"
      using W code' unfolding findWishlistByInviteCode_def d'_def saveWishlist_def id'
      by (simp add: find_replace_pred)
    obtain w0 where w0: "findWishlistById d (wishlist_id W) = Some w0"
      using mem unfolding findWishlistById_def
      by (cases "find (\<lambda>w. wishlist_id w = wishlist_id W) (wishlistDocs d)")
         (auto simp: find_None_iff)
    have f2: "findWishlistById d' (wishlist_id W) = Some W'"
      unfolding d'_def by (rule findWishlistById_saveWishlist_same[OF w0 id'])
    have f3: "\<forall>j. j \<noteq> wishlist_id W \<longrightarrow> findWishlistById d' j = findWishlistById d j"
      unfolding d'_def using id' by (simp add: findWishlistById_saveWishlist_other)
    have f4: "productDocs d' = productDocs d"
      by (simp add: d'_def productDocs_saveWishlist)
    have f5: "\<forall>now'. joinWishlist d' c A now' = (Inl BadRequest400, d')"
      using f1 by (simp add: joinWishlist_def Let_def list_ex_iff W'_def)
    show ?thesis using False j f1 f2 f3 f4 f5 unfolding W'_def[symmetric] by auto
  qed
qed

theorem C3_join_witness:
  "joinWishlist exDb (js ''nope'') 99 30 = (Inl NotFound404, exDb)
 \<and> joinWishlist exDb (js ''k3x9'') 10 30 = (Inl BadRequest400, exDb)
 \<and> joinWishlist exDb (js ''k3x9'') 11 30 = (Inl BadRequest400, exDb)
 \<and> fst (joinWishlist exDb (js ''k3x9'') 99 30)
      = Inr (exWishlist\<lparr>collaborators := collaborators exWishlist @
               [\<lparr>collab_user = 99, collab_role = Editor, joinedAt = 30\<rparr>]\<rparr>)
 \<and> fst (joinWishlist (snd (joinWishlist exDb (js ''k3x9'') 99 30)) (js ''k3x9'') 99 31) = Inl BadRequest400"
proof -
  have a: "joinWishlist exDb (js ''nope'') 99 30 = (Inl NotFound404, exDb)"
    using C3_join[of exDb "js ''nope''" 99 30] exDb_no_invite by simp
  have b: "joinWishlist exDb (js ''k3x9'') 10 30 = (Inl BadRequest400, exDb)"
    using C3_join[of exDb "js ''k3x9''" 10 30] exDb_invite by (simp add: exWishlist_def)
  have c: "joinWishlist exDb (js ''k3x9'') 11 30 = (Inl BadRequest400, exDb)"
    using C3_join[of exDb "js ''k3x9''" 11 30] exDb_invite by (simp add: exWishlist_def)
  have new: "\<not> (99 = owner exWishlist \<or> 99 \<in> collab_user ` set (collaborators exWishlist))"
    by (simp add: exWishlist_def)
  have d: "fst (joinWishlist exDb (js ''k3x9'') 99 30)
      = Inr (exWishlist\<lparr>collaborators := collaborators exWishlist @
               [\<lparr>collab_user = 99, collab_role = Editor, joinedAt = 30\<rparr>]\<rparr>)
    \<and> fst (joinWishlist (snd (joinWishlist exDb (js ''k3x9'') 99 30)) (js ''k3x9'') 99 31) = Inl BadRequest400"
    using C3_join[of exDb "js ''k3x9''" 99 30] exDb_invite new by force
  show ?thesis using a b c d by simp
qed

section \<open>Deleting a wishlist\<close>

text \<open>
  C6. Delete-wishlist on a stored wishlist succeeds only for its owner: any other
  actor, an admin collaborator included, gets 403 and the store unchanged. After a
  successful delete no product of the store references the wishlist, and the wishlist is
  gone
\<close>

theorem C6_delete_wishlist:
  assumes W: "findWishlistById d i = Some W"
  shows "(if A = owner W
          then fst (deleteWishlist d i A) = Inr ()
             \<and> filter (\<lambda>p. wishlist p = i) (productDocs (snd (deleteWishlist d i A))) = []
             \<and> findWishlistById (snd (deleteWishlist d i A)) i = None
          else deleteWishlist d i A = (Inl Forbidden403, d))
       \<and> (A \<noteq> owner W \<and> list_ex (\<lambda>c. collab_user c = A \<and> collab_role c = Admin) (collaborators W)
            \<longrightarrow> deleteWishlist d i A = (Inl Forbidden403, d))"
  using W
  by (auto simp: deleteWishlist_def findWishlistByIdAndDelete_def deleteManyProducts_def
        findWishlistById_def find_filter_same filter_empty_conv)

theorem C6_delete_wishlist_witness:
  "deleteWishlist exDb 1 12 = (Inl Forbidden403, exDb)
 \<and> fst (deleteWishlist exDb 1 10) = Inr ()
 \<and> filter (\<lambda>p. wishlist p = 1) (productDocs (snd (deleteWishlist exDb 1 10))) = []
 \<and> length (filter (\<lambda>p. wishlist p = 1) (productDocs exDb)) = 3"
proof -
  have o: "owner exWishlist = 10" by (simp add: exWishlist_def)
  have n: "length (filter (\<lambda>p. wishlist p = 1) (productDocs exDb)) = 3"
    by (simp add: exDb_def exProduct_def)
  show ?thesis
    using C6_delete_wishlist[OF exDb_wishlist, of 12] C6_delete_wishlist[OF exDb_wishlist, of 10] o n
    by simp
qed

section \<open>The total value\<close>

lemma totalValue_calculateTotalValue:
  "totalValue (calculateTotalValue d w) =
     foldl (\<lambda>total p. total + (case price p of None \<Rightarrow> 0
                                          | Some v \<Rightarrow> if v < 0 \<or> 0 < v then v else 0)) 0
       (populate d (products w))"
  by (simp add: calculateTotalValue_def priceOrZero_def)

text \<open>
  C4. After a successful add-product, update-product or delete-product, the stored
  \<open>totalValue\<close> of the wishlist is the sum of the prices of the products its references
  resolve to in the store the request leaves: the prices are added from 0 in the order of
  the references, with the addition of Number, and a product with no price (or a price
  that is not truthy) counts 0. In the example the prices 10, none, 25 give 35, 10 once
  the product priced 25 is deleted, and 40 once a product priced 5 is added
\<close>

theorem C4_total_value:
  assumes W: "findWishlistById d i = Some W"
  shows "(\<forall>A body p d'. ap_wishlistId body = Some i \<and> addProduct d A body = (Inr p, d') \<longrightarrow>
            (\<exists>W'. findWishlistById d' i = Some W'
                 \<and> products W' = products W @ [product_id p]
                 \<and> totalValue W' = foldl (\<lambda>total p. total + (case price p of None \<Rightarrow> 0
                                          | Some v \<Rightarrow> if v < 0 \<or> 0 < v then v else 0)) 0
                     (populate d' (products W'))))
       \<and> (\<forall>A pid P body p' d'. findProductById d pid = Some P \<and> wishlist P = i
              \<and> updateProduct d pid A body = (Inr p', d') \<longrightarrow>
            (\<exists>W'. findWishlistById d' i = Some W'
                 \<and> products W' = products W
                 \<and> totalValue W' = foldl (\<lambda>total p. total + (case price p of None \<Rightarrow> 0
                                          | Some v \<Rightarrow> if v < 0 \<or> 0 < v then v else 0)) 0
                     (populate d' (products W'))))
       \<and> (\<forall>A pid P d'. findProductById d pid = Some P \<and> wishlist P = i
              \<and> deleteProduct d pid A = (Inr (), d') \<longrightarrow>
            (\<exists>W'. findWishlistById d' i = Some W'
                 \<and> products W' = filter (\<lambda>x. x \<noteq> pid) (products W)
                 \<and> totalValue W' = foldl (\<lambda>total p. total + (case price p of None \<Rightarrow> 0
                                          | Some v \<Rightarrow> if v < 0 \<or> 0 < v then v else 0)) 0
                     (populate d' (products W'))))"
proof (intro conjI allI impI)
  fix A body p d'
  assume h: "ap_wishlistId body = Some i \<and> addProduct d A body = (Inr p, d')"
  define d1 where "d1 = insertProduct d p"
  define W2 where "W2 = calculateTotalValue d1 (W\<lparr>products := products W @ [product_id p]\<rparr>)"
  have d': "d' = saveWishlist d1 W2"
    using h W unfolding d1_def W2_def
    by (auto simp: addProduct_def Let_def split: if_splits)
  have id2: "wishlist_id W2 = i"
    using findWishlistById_id[OF W] by (simp add: W2_def wishlist_id_calculateTotalValue)
  have f1: "findWishlistById d1 i = Some W"
    using W by (simp add: d1_def findWishlistById_def insertProduct_def)
  have "findWishlistById d' i = Some W2"
    unfolding d' by (rule findWishlistById_saveWishlist_same[OF f1 id2])
  moreover have "products W2 = products W @ [product_id p]"
    by (simp add: W2_def products_calculateTotalValue)
  moreover have "totalValue W2 = foldl (\<lambda>total p. total + (case price p of None \<Rightarrow> 0
                                          | Some v \<Rightarrow> if v < 0 \<or> 0 < v then v else 0)) 0
                     (populate d' (products W2))"
    unfolding d' populate_saveWishlist
    by (simp add: W2_def totalValue_calculateTotalValue products_calculateTotalValue)
  ultimately show "\<exists>W'. findWishlistById d' i = Some W'
                 \<and> products W' = products W @ [product_id p]
                 \<and> totalValue W' = foldl (\<lambda>total p. total + (case price p of None \<Rightarrow> 0
                                          | Some v \<Rightarrow> if v < 0 \<or> 0 < v then v else 0)) 0
                     (populate d' (products W'))"
    by blast
next
  fix A pid P body p' d'
  assume h: "findProductById d pid = Some P \<and> wishlist P = i
              \<and> updateProduct d pid A body = (Inr p', d')"
  obtain d1 where d': "d' = saveWishlist d1 (calculateTotalValue d1 W)"
      and d1: "wishlistDocs d1 = wishlistDocs d"
    using h W
    by (auto simp: updateProduct_def findProductByIdAndUpdate_def Let_def wishlistDocs_saveProduct
             split: if_splits option.splits)
  define W2 where "W2 = calculateTotalValue d1 W"
  have id2: "wishlist_id W2 = i"
    using findWishlistById_id[OF W] by (simp add: W2_def wishlist_id_calculateTotalValue)
  have f1: "findWishlistById d1 i = Some W"
    using W d1 by (simp add: findWishlistById_def)
  have "findWishlistById d' i = Some W2"
    unfolding d' W2_def[symmetric] by (rule findWishlistById_saveWishlist_same[OF f1 id2])
  moreover have "products W2 = products W"
    by (simp add: W2_def products_calculateTotalValue)
  moreover have "totalValue W2 = foldl (\<lambda>total p. total + (case price p of None \<Rightarrow> 0
                                          | Some v \<Rightarrow> if v < 0 \<or> 0 < v then v else 0)) 0
                     (populate d' (products W2))"
    unfolding d' populate_saveWishlist
    by (simp add: W2_def totalValue_calculateTotalValue products_calculateTotalValue)
  ultimately show "\<exists>W'. findWishlistById d' i = Some W'
                 \<and> products W' = products W
                 \<and> totalValue W' = foldl (\<lambda>total p. total + (case price p of None \<Rightarrow> 0
                                          | Some v \<Rightarrow> if v < 0 \<or> 0 < v then v else 0)) 0
                     (populate d' (products W'))"
    by blast
next
  fix A pid P d'
  assume h: "findProductById d pid = Some P \<and> wishlist P = i
              \<and> deleteProduct d pid A = (Inr (), d')"
  define W2 where "W2 = calculateTotalValue d (W\<lparr>products := filter (\<lambda>x. x \<noteq> pid) (products W)\<rparr>)"
  have pidP: "product_id P = pid" using h findProductById_id by blast
  have d': "d' = findProductByIdAndDelete (saveWishlist d W2) pid"
    using h W pidP unfolding W2_def
    by (auto simp: deleteProduct_def Let_def split: if_splits)
  have id2: "wishlist_id W2 = i"
    using findWishlistById_id[OF W] by (simp add: W2_def wishlist_id_calculateTotalValue)
  have pr: "products W2 = filter (\<lambda>x. x \<noteq> pid) (products W)"
    by (simp add: W2_def products_calculateTotalValue)
  have "findWishlistById d' i = Some W2"
    unfolding d' findWishlistById_findProductByIdAndDelete
    by (rule findWishlistById_saveWishlist_same[OF W id2])
  moreover have "totalValue W2 = foldl (\<lambda>total p. total + (case price p of None \<Rightarrow> 0
                                          | Some v \<Rightarrow> if v < 0 \<or> 0 < v then v else 0)) 0
                     (populate d' (products W2))"
  proof -
    have "pid \<notin> set (products W2)" by (simp add: pr)
    then have "populate d' (products W2) = populate d (products W2)"
      unfolding d' by (simp add: populate_delete_other populate_saveWishlist)
    then show ?thesis
      by (simp add: W2_def totalValue_calculateTotalValue products_calculateTotalValue)
  qed
  ultimately show "\<exists>W'. findWishlistById d' i = Some W'
                 \<and> products W' = filter (\<lambda>x. x \<noteq> pid) (products W)
                 \<and> totalValue W' = foldl (\<lambda>total p. total + (case price p of None \<Rightarrow> 0
                                          | Some v \<Rightarrow> if v < 0 \<or> 0 < v then v else 0)) 0
                     (populate d' (products W'))"
    using pr by blast
qed

theorem C4_total_value_witness:
  "map_option totalValue
     (findWishlistById (snd (updateProduct exDb 2 10 \<lparr>plainKeys = [SetName (js ''book'')], dollarSet = []\<rparr>)) 1)
     = Some 35
 \<and> map_option totalValue (findWishlistById (snd (deleteProduct exDb 3 10)) 1) = Some 10
 \<and> map_option totalValue (findWishlistById (snd (addProduct exDb 11 exAddBody)) 1) = Some 40"
proof -
  note defs = updateProduct_def deleteProduct_def addProduct_def findProductByIdAndUpdate_def
    deleteKey_def findProductById_def findWishlistById_def exDb_def exProduct_def exWishlist_def
    exAddBody_def Let_def saveProduct_def saveWishlist_def insertProduct_def freshProductId_def
    calculateTotalValue_def populate_def map_filter_simps priceOrZero_def
    findProductByIdAndDelete_def trim_def isSpace_def validProduct_def optLen_def js_def
  define d1 where "d1 = snd (addProduct exDb 11 exAddBody)"
  define d2 where "d2 = snd (updateProduct exDb 2 10 \<lparr>plainKeys = [SetName (js ''book'')], dollarSet = []\<rparr>)"
  define d3 where "d3 = snd (deleteProduct exDb 3 10)"
  have r1: "\<exists>p. addProduct exDb 11 exAddBody = (Inr p, d1) \<and> product_id p = 4"
    unfolding d1_def by (simp add: defs)
  have b1: "ap_wishlistId exAddBody = Some 1" by (simp add: exAddBody_def)
  have r2: "\<exists>p'. updateProduct exDb 2 10 \<lparr>plainKeys = [SetName (js ''book'')], dollarSet = []\<rparr> = (Inr p', d2)"
    unfolding d2_def by (simp add: defs)
  have r3: "deleteProduct exDb 3 10 = (Inr (), d3)"
    unfolding d3_def by (simp add: defs)
  note t = C4_total_value[OF exDb_wishlist]
  from r1 obtain p1 where p1: "addProduct exDb 11 exAddBody = (Inr p1, d1)" "product_id p1 = 4"
    by blast
  from t b1 p1(1)
  obtain W1 where W1': "findWishlistById d1 1 = Some W1"
     "products W1 = products exWishlist @ [product_id p1]"
     "totalValue W1 = foldl (\<lambda>total p. total + (case price p of None \<Rightarrow> 0
                                          | Some v \<Rightarrow> if v < 0 \<or> 0 < v then v else 0)) 0
                        (populate d1 (products W1))"
    by blast
  note W1 = W1'(1) W1'(2)[unfolded p1(2)] W1'(3)
  from t r2 exDb_product2 exProduct_refs[of 2 None]
  obtain W2 where W2: "findWishlistById d2 1 = Some W2" "products W2 = products exWishlist"
     "totalValue W2 = foldl (\<lambda>total p. total + (case price p of None \<Rightarrow> 0
                                          | Some v \<Rightarrow> if v < 0 \<or> 0 < v then v else 0)) 0
                        (populate d2 (products W2))"
    by blast
  from t r3 exDb_product3 exProduct_refs[of 3 "Some 25"]
  obtain W3 where W3: "findWishlistById d3 1 = Some W3"
     "products W3 = filter (\<lambda>x. x \<noteq> 3) (products exWishlist)"
     "totalValue W3 = foldl (\<lambda>total p. total + (case price p of None \<Rightarrow> 0
                                          | Some v \<Rightarrow> if v < 0 \<or> 0 < v then v else 0)) 0
                        (populate d3 (products W3))"
    by blast
  have q1: "map price (populate d1 (products exWishlist @ [4])) = [Some 10, None, Some 25, Some 5]"
    unfolding d1_def by (simp add: defs)
  have p2: "map price (populate d2 (products exWishlist)) = [Some 10, None, Some 25]"
    unfolding d2_def by (simp add: defs)
  have p3: "map price (populate d3 (filter (\<lambda>x. x \<noteq> 3) (products exWishlist))) = [Some 10, None]"
    unfolding d3_def by (simp add: defs)
  have s: "foldl (\<lambda>total p. total + (case price p of None \<Rightarrow> 0
                                          | Some v \<Rightarrow> if v < 0 \<or> 0 < v then v else 0)) a ps
         = foldl (\<lambda>total q. total + (case q of None \<Rightarrow> 0
                                          | Some v \<Rightarrow> if v < 0 \<or> 0 < v then v else 0)) a (map price ps)"
    for a :: real and ps :: "real product list"
    by (induction ps arbitrary: a) simp_all
  have "totalValue W1 = 40" unfolding W1(3) W1(2) s q1 by simp
  moreover have "totalValue W2 = 35" unfolding W2(3) W2(2) s p2 by simp
  moreover have "totalValue W3 = 10" unfolding W3(3) W3(2) s p3 by simp
  ultimately show ?thesis using W1(1) W2(1) W3(1) unfolding d1_def d2_def d3_def by simp
qed


section \<open>Reactions\<close>












section \<open>The invite code along a run\<close>

lemma flipBack_run:
  "run emptyDb flipBackRequests =
     \<lparr>wishlistDocs =
        [\<lparr>wishlist_id = 1, title = js ''gifts'', description = None, owner = 10,
          collaborators = [], products = [], isPublic = Some False,
          inviteCode = Some (js ''k3x9''), tags = [], totalValue = 0\<rparr>],
      productDocs = []\<rparr>"
  by (simp add: flipBackRequests_def emptyDb_def createWishlist_def updateWishlist_def Let_def
        freshWishlistId_def generateInviteCode_def validWishlist_def optLen_def codeTaken_def
        insertWishlist_def saveWishlist_def findWishlistById_def trim_gifts
        findWishlistByIdAndUpdate_def buildWishlistUpdates_def applyWishlistUpdates_def
        wishlistUpdatesValid_def)

lemma flipBack_histories:
  "everMadePublic emptyDb flipBackRequests = [1] \<and> explicitlyGenerated emptyDb flipBackRequests = []"
  by (simp add: flipBackRequests_def emptyDb_def createWishlist_def updateWishlist_def Let_def
        freshWishlistId_def generateInviteCode_def validWishlist_def optLen_def codeTaken_def
        insertWishlist_def saveWishlist_def findWishlistById_def trim_gifts
        findWishlistByIdAndUpdate_def buildWishlistUpdates_def applyWishlistUpdates_def
        wishlistUpdatesValid_def)

lemma find_append_hit: "find Q xs = Some y \<Longrightarrow> find Q (xs @ ys) = Some y"
  by (induction xs) (auto split: if_splits)

lemma saveWishlist_docs:
  "x \<in> set (wishlistDocs (saveWishlist d w)) \<Longrightarrow> x = w \<or> x \<in> set (wishlistDocs d)"
  by (auto simp: saveWishlist_def split: if_splits)

lemma findWishlistById_mem:
  "findWishlistById d i = Some w \<Longrightarrow> w \<in> set (wishlistDocs d) \<and> wishlist_id w = i"
  unfolding findWishlistById_def by (drule find_key) simp

lemma booleanOrAbsent_cases:
  "booleanOrAbsent x = (x = None \<or> (\<exists>b. x = Some (JBool b)))"
  by (auto simp: booleanOrAbsent_def split: option.splits json.splits)

lemma createWishlist_docs:
  assumes "x \<in> set (wishlistDocs (snd (createWishlist d a b c)))"
      and "booleanOrAbsent (cw_isPublic b)"
  shows "x \<in> set (wishlistDocs d)
       \<or> (fst (createWishlist d a b c) = Inr x \<and> (inviteCode x \<noteq> None \<longrightarrow> isPublic x = Some True))"
  using assms
  by (auto simp: createWishlist_def Let_def insertWishlist_def generateInviteCode_def
           booleanOrAbsent_cases split: if_splits)

lemma wishlist_id_applyWishlistUpdates:
  "wishlist_id (applyWishlistUpdates w u) = wishlist_id w"
  by (simp add: applyWishlistUpdates_def)

lemma inviteCode_applyWishlistUpdates:
  "inviteCode (applyWishlistUpdates w u) =
     (case u_inviteCode u of None \<Rightarrow> inviteCode w | Some c \<Rightarrow> Some c)"
  by (simp add: applyWishlistUpdates_def)

lemma u_inviteCode_buildWishlistUpdates:
  "u_inviteCode (buildWishlistUpdates w b c) =
     (if (case uw_isPublic b of None \<Rightarrow> False | Some v \<Rightarrow> jsTruthy v)
         \<and> (inviteCode w = None \<or> inviteCode w = Some [])
      then Some c else None)"
  by (auto simp: buildWishlistUpdates_def generateInviteCode_def split: option.splits)

lemma boolean_truthy_cast:
  assumes "booleanOrAbsent x"
  shows "(case x of None \<Rightarrow> False | Some v \<Rightarrow> jsTruthy v)
       = (case x of None \<Rightarrow> False | Some v \<Rightarrow> castBoolean v = Some (Some True))"
  using assms by (auto simp: booleanOrAbsent_cases)

lemma updateWishlist_cases:
  assumes "findWishlistById d i = Some w"
  shows "updateWishlist d i a b c = (Inl Forbidden403, d)
       \<or> updateWishlist d i a b c = (Inl ServerError500, d)
       \<or> updateWishlist d i a b c =
            (Inr (Some (applyWishlistUpdates w (buildWishlistUpdates w b c))),
             saveWishlist d (applyWishlistUpdates w (buildWishlistUpdates w b c)))"
  using assms
  by (simp add: updateWishlist_def findWishlistByIdAndUpdate_def Let_def)

lemma updateWishlist_docs:
  assumes "x \<in> set (wishlistDocs (snd (updateWishlist d i a b c)))"
  shows "x \<in> set (wishlistDocs d)
       \<or> (fst (updateWishlist d i a b c) = Inr (Some x) \<and> wishlist_id x = i
           \<and> (inviteCode x \<noteq> None \<longrightarrow>
                 (case uw_isPublic b of None \<Rightarrow> False | Some v \<Rightarrow> jsTruthy v)
                 \<or> (\<exists>w \<in> set (wishlistDocs d). wishlist_id w = i \<and> inviteCode w \<noteq> None)))"
proof (cases "findWishlistById d i")
  case None
  then show ?thesis using assms by (simp add: updateWishlist_def)
next
  case (Some w)
  note mem = findWishlistById_mem[OF Some]
  define w5 where "w5 = applyWishlistUpdates w (buildWishlistUpdates w b c)"
  have id: "wishlist_id w5 = i"
    using mem by (simp add: w5_def wishlist_id_applyWishlistUpdates)
  have code: "inviteCode w5 \<noteq> None \<longrightarrow>
                (case uw_isPublic b of None \<Rightarrow> False | Some v \<Rightarrow> jsTruthy v) \<or> inviteCode w \<noteq> None"
    by (simp add: w5_def inviteCode_applyWishlistUpdates u_inviteCode_buildWishlistUpdates)
  from updateWishlist_cases[OF Some, of a b c]
  consider "snd (updateWishlist d i a b c) = d"
    | "updateWishlist d i a b c = (Inr (Some w5), saveWishlist d w5)"
    unfolding w5_def by auto
  then show ?thesis
  proof cases
    case 1
    then show ?thesis using assms by simp
  next
    case 2
    with assms have "x = w5 \<or> x \<in> set (wishlistDocs d)"
      by (auto dest: saveWishlist_docs)
    then show ?thesis using 2 id code mem by auto
  qed
qed

lemma generateInvite_cases:
  assumes "findWishlistById d i = Some w"
  shows "snd (generateInvite d i a c) = d
       \<or> generateInvite d i a c = (Inr c, saveWishlist d (w\<lparr>inviteCode := Some c\<rparr>))"
  using assms by (simp add: generateInvite_def generateInviteCode_def Let_def)

lemma joinWishlist_cases:
  assumes "findWishlistByInviteCode d c = Some w"
  shows "snd (joinWishlist d c a now) = d
       \<or> snd (joinWishlist d c a now) =
            saveWishlist d (w\<lparr>collaborators := collaborators w @
                  [\<lparr>collab_user = a, collab_role = Editor, joinedAt = now\<rparr>]\<rparr>)"
  using assms by (simp add: joinWishlist_def Let_def)

lemma generateInvite_docs:
  assumes "x \<in> set (wishlistDocs (snd (generateInvite d i a c)))"
  shows "x \<in> set (wishlistDocs d)
       \<or> (fst (generateInvite d i a c) = Inr c \<and> wishlist_id x = i)"
proof (cases "findWishlistById d i")
  case None
  then show ?thesis using assms by (simp add: generateInvite_def)
next
  case (Some w)
  note mem = findWishlistById_mem[OF Some]
  from generateInvite_cases[OF Some, of a c] show ?thesis
    using assms mem by (auto dest!: saveWishlist_docs)
qed

lemma joinWishlist_docs:
  assumes "x \<in> set (wishlistDocs (snd (joinWishlist d c a now)))"
  shows "x \<in> set (wishlistDocs d)
       \<or> (\<exists>w \<in> set (wishlistDocs d). wishlist_id w = wishlist_id x \<and> inviteCode w = inviteCode x)"
proof (cases "findWishlistByInviteCode d c")
  case None
  then show ?thesis using assms by (simp add: joinWishlist_def)
next
  case (Some w)
  then have mem: "w \<in> set (wishlistDocs d)"
    unfolding findWishlistByInviteCode_def by (auto simp: find_Some_iff)
  define v where "v = w\<lparr>collaborators := collaborators w @
                  [\<lparr>collab_user = a, collab_role = Editor, joinedAt = now\<rparr>]\<rparr>"
  have same: "wishlist_id w = wishlist_id v \<and> inviteCode w = inviteCode v"
    by (simp add: v_def)
  from joinWishlist_cases[OF Some, of a now]
  have "snd (joinWishlist d c a now) = d \<or> snd (joinWishlist d c a now) = saveWishlist d v"
    unfolding v_def by simp
  with assms have "x \<in> set (wishlistDocs d) \<or> x = v"
    by (auto dest: saveWishlist_docs)
  then show ?thesis using mem same by blast
qed

lemma handle_invariant:
  assumes inv: "\<forall>w \<in> set (wishlistDocs d). inviteCode w \<noteq> None \<longrightarrow> wishlist_id w \<in> G"
      and x: "x \<in> set (wishlistDocs (handle d r))" "inviteCode x \<noteq> None"
      and bool: "booleanIsPublic r"
  shows "wishlist_id x \<in> G \<union> set (madePublicBy d r) \<union> set (generatedBy d r)"
proof (cases r)
  case (CreateWishlist a b c)
  with x(1) have "x \<in> set (wishlistDocs (snd (createWishlist d a b c)))" by simp
  moreover have "booleanOrAbsent (cw_isPublic b)" using bool CreateWishlist by simp
  ultimately show ?thesis
    using createWishlist_docs[of x d a b c] inv x(2) CreateWishlist by auto
next
  case (UpdateWishlist i a b c)
  with x(1) have "x \<in> set (wishlistDocs (snd (updateWishlist d i a b c)))" by simp
  moreover have "booleanOrAbsent (uw_isPublic b)" using bool UpdateWishlist by simp
  ultimately show ?thesis
    using updateWishlist_docs[of x d i a b c] boolean_truthy_cast[of "uw_isPublic b"]
          inv x(2) UpdateWishlist
    by auto
next
  case (GenerateInvite i a c)
  with x(1) have "x \<in> set (wishlistDocs (snd (generateInvite d i a c)))" by simp
  from generateInvite_docs[OF this] show ?thesis
    using inv x(2) GenerateInvite by auto
next
  case (JoinWishlist c a now)
  with x(1) have "x \<in> set (wishlistDocs (snd (joinWishlist d c a now)))" by simp
  from joinWishlist_docs[OF this] show ?thesis
    using inv x(2) JoinWishlist by auto
qed

lemma run_invariant:
  assumes "\<forall>w \<in> set (wishlistDocs d). inviteCode w \<noteq> None \<longrightarrow> wishlist_id w \<in> G"
      and "list_all booleanIsPublic rs"
  shows "\<forall>w \<in> set (wishlistDocs (run d rs)). inviteCode w \<noteq> None \<longrightarrow>
           wishlist_id w \<in> G \<union> set (everMadePublic d rs) \<union> set (explicitlyGenerated d rs)"
  using assms
proof (induction rs arbitrary: d G)
  case Nil
  then show ?case by simp
next
  case (Cons r rs)
  define G' where "G' = G \<union> set (madePublicBy d r) \<union> set (generatedBy d r)"
  have r: "booleanIsPublic r" and rs: "list_all booleanIsPublic rs"
    using Cons.prems(2) by simp_all
  have "\<forall>w \<in> set (wishlistDocs (handle d r)). inviteCode w \<noteq> None \<longrightarrow> wishlist_id w \<in> G'"
    unfolding G'_def using handle_invariant[OF Cons.prems(1) _ _ r] by blast
  from Cons.IH[OF this rs] show ?case
    unfolding G'_def by (simp add: Un_assoc Un_left_commute)
qed

lemma saveWishlist_keeps_code:
  assumes w: "findWishlistById d i = Some w" and code: "inviteCode w \<noteq> None"
      and v: "findWishlistById d (wishlist_id v) = Some w0" "inviteCode w0 \<noteq> None \<longrightarrow> inviteCode v \<noteq> None"
  shows "\<exists>w'. findWishlistById (saveWishlist d v) i = Some w' \<and> inviteCode w' \<noteq> None"
proof (cases "i = wishlist_id v")
  case True
  then have "findWishlistById (saveWishlist d v) i = Some v"
    using findWishlistById_saveWishlist_same[OF w] by simp
  moreover have "inviteCode v \<noteq> None" using v w code True by simp
  ultimately show ?thesis by simp
next
  case False
  then have "findWishlistById (saveWishlist d v) i = Some w"
    using w by (simp add: findWishlistById_saveWishlist_other)
  then show ?thesis using code by simp
qed

lemma handle_keeps_code:
  assumes w: "findWishlistById d i = Some w" and code: "inviteCode w \<noteq> None"
  shows "\<exists>w'. findWishlistById (handle d r) i = Some w' \<and> inviteCode w' \<noteq> None"
proof (cases r)
  case (CreateWishlist a b c)
  have "snd (createWishlist d a b c) = d
      \<or> (\<exists>v. snd (createWishlist d a b c) = insertWishlist d v)"
    by (auto simp: createWishlist_def Let_def)
  moreover have "findWishlistById (insertWishlist d v) i = Some w" for v
    using w by (simp add: insertWishlist_def findWishlistById_def find_append_hit)
  ultimately show ?thesis using w code CreateWishlist by auto
next
  case (UpdateWishlist j a b c)
  show ?thesis
  proof (cases "findWishlistById d j")
    case None
    then show ?thesis using w code UpdateWishlist by (simp add: updateWishlist_def)
  next
    case (Some w0)
    define v where "v = applyWishlistUpdates w0 (buildWishlistUpdates w0 b c)"
    have idv: "wishlist_id v = j"
      using findWishlistById_id[OF Some] by (simp add: v_def wishlist_id_applyWishlistUpdates)
    have cv: "inviteCode w0 \<noteq> None \<longrightarrow> inviteCode v \<noteq> None"
      by (simp add: v_def inviteCode_applyWishlistUpdates split: option.splits)
    from updateWishlist_cases[OF Some, of a b c]
    have "snd (updateWishlist d j a b c) = d \<or> snd (updateWishlist d j a b c) = saveWishlist d v"
      unfolding v_def by auto
    then show ?thesis
      using saveWishlist_keeps_code[OF w code, of v w0] Some idv cv w code UpdateWishlist by auto
  qed
next
  case (GenerateInvite j a c)
  show ?thesis
  proof (cases "findWishlistById d j")
    case None
    then show ?thesis using w code GenerateInvite by (simp add: generateInvite_def)
  next
    case (Some w0)
    have idv: "wishlist_id (w0\<lparr>inviteCode := Some c\<rparr>) = j"
      using findWishlistById_id[OF Some] by simp
    from generateInvite_cases[OF Some, of a c]
    show ?thesis
      using saveWishlist_keeps_code[OF w code, of "w0\<lparr>inviteCode := Some c\<rparr>" w0]
            Some idv w code GenerateInvite by auto
  qed
next
  case (JoinWishlist c a now)
  show ?thesis
  proof (cases "findWishlistByInviteCode d c")
    case None
    then show ?thesis using w code JoinWishlist by (simp add: joinWishlist_def)
  next
    case (Some w0)
    define v where "v = w0\<lparr>collaborators := collaborators w0 @
                  [\<lparr>collab_user = a, collab_role = Editor, joinedAt = now\<rparr>]\<rparr>"
    have c0: "inviteCode w0 = Some c" and mem: "w0 \<in> set (wishlistDocs d)"
      using Some unfolding findWishlistByInviteCode_def by (auto simp: find_Some_iff)
    have cv: "inviteCode v \<noteq> None" by (simp add: v_def c0)
    have idv: "wishlist_id v = wishlist_id w0" by (simp add: v_def)
    obtain w1 where w1: "findWishlistById d (wishlist_id v) = Some w1"
      using mem unfolding findWishlistById_def idv
      by (cases "find (\<lambda>w. wishlist_id w = wishlist_id w0) (wishlistDocs d)")
         (auto simp: find_None_iff)
    from joinWishlist_cases[OF Some, of a now]
    have "snd (joinWishlist d c a now) = d \<or> snd (joinWishlist d c a now) = saveWishlist d v"
      unfolding v_def by simp
    then show ?thesis
      using saveWishlist_keeps_code[OF w code w1] cv w code JoinWishlist by auto
  qed
qed

lemma run_keeps_code:
  assumes "findWishlistById d i = Some w" "inviteCode w \<noteq> None"
  shows "\<exists>w'. findWishlistById (run d rs) i = Some w' \<and> inviteCode w' \<noteq> None"
  using assms
proof (induction rs arbitrary: d w)
  case Nil
  then show ?case by simp
next
  case (Cons r rs)
  from handle_keeps_code[OF Cons.prems, of r] obtain w1
    where "findWishlistById (handle d r) i = Some w1" "inviteCode w1 \<noteq> None" by blast
  from Cons.IH[OF this] show ?case by simp
qed

text \<open>A body whose \<open>isPublic\<close> is the string \<open>'false'\<close> is truthy for the handler and
  cast to false by Mongoose: the wishlist is stored private, with an invite code.\<close>

lemma createWishlist_string_false:
  "fst (createWishlist (emptyDb :: real db) 10
          \<lparr>cw_title = Some (js ''gifts''), cw_description = None,
           cw_isPublic = Some (JStr (js ''false'')), cw_tags = None\<rparr> (js ''k3x9'')) =
     Inr \<lparr>wishlist_id = 1, title = js ''gifts'', description = None, owner = 10,
          collaborators = [], products = [], isPublic = Some False,
          inviteCode = Some (js ''k3x9''), tags = [], totalValue = 0\<rparr>"
  by (simp add: emptyDb_def createWishlist_def Let_def freshWishlistId_def generateInviteCode_def
        validWishlist_def optLen_def codeTaken_def trim_gifts)

text \<open>
  C7. As stated the claim fails: no request clears an invite code, so a wishlist created
  public and switched back to private still carries the code of its creation. What holds,
  for requests whose bodies give \<open>isPublic\<close> as a JSON boolean or not at all: in every
  store reached from the empty one by create, update, generate-invite and join requests,
  a wishlist carries an invite code only if it was created public, or switched to public
  by a successful update, or generate-invite succeeded on it. And for all requests, from
  any store: a wishlist that carries a code carries one after any such run
\<close>

theorem C7_invite_code_amended:
  "(list_all booleanIsPublic rs \<longrightarrow>
      (\<forall>w \<in> set (wishlistDocs (run emptyDb rs)). inviteCode w \<noteq> None \<longrightarrow>
         wishlist_id w \<in> set (everMadePublic emptyDb rs) \<union> set (explicitlyGenerated emptyDb rs)))
 \<and> (\<forall>d i w. findWishlistById d i = Some w \<and> inviteCode w \<noteq> None \<longrightarrow>
       (\<exists>w'. findWishlistById (run d rs) i = Some w' \<and> inviteCode w' \<noteq> None))"
proof -
  have e: "\<forall>w \<in> set (wishlistDocs emptyDb). inviteCode w \<noteq> None \<longrightarrow> wishlist_id w \<in> {}"
    by (simp add: emptyDb_def)
  have a: "list_all booleanIsPublic rs \<longrightarrow>
      (\<forall>w \<in> set (wishlistDocs (run emptyDb rs)). inviteCode w \<noteq> None \<longrightarrow>
         wishlist_id w \<in> set (everMadePublic emptyDb rs) \<union> set (explicitlyGenerated emptyDb rs))"
    using run_invariant[OF e, of rs] by simp
  show ?thesis using a run_keeps_code by blast
qed

theorem C7_invite_code_amended_witness:
  "inviteCode (hd (wishlistDocs (run emptyDb flipBackRequests))) = Some (js ''k3x9'')
 \<and> wishlist_id (hd (wishlistDocs (run emptyDb flipBackRequests)))
      \<in> set (everMadePublic emptyDb flipBackRequests) \<union> set (explicitlyGenerated emptyDb flipBackRequests)
 \<and> everMadePublic emptyDb flipBackRequests = [1]
 \<and> list_all booleanIsPublic flipBackRequests
 \<and> (\<exists>w'. findWishlistById (run exDb flipBackRequests) 1 = Some w' \<and> inviteCode w' \<noteq> None)"
proof -
  have m: "hd (wishlistDocs (run emptyDb flipBackRequests))
             \<in> set (wishlistDocs (run emptyDb flipBackRequests))"
    by (simp add: flipBack_run)
  have c: "inviteCode (hd (wishlistDocs (run emptyDb flipBackRequests))) = Some (js ''k3x9'')"
    by (simp add: flipBack_run)
  have b: "list_all booleanIsPublic flipBackRequests"
    by (simp add: flipBackRequests_def booleanOrAbsent_def)
  from C7_invite_code_amended[of flipBackRequests] m c b
  have "wishlist_id (hd (wishlistDocs (run emptyDb flipBackRequests)))
      \<in> set (everMadePublic emptyDb flipBackRequests) \<union> set (explicitlyGenerated emptyDb flipBackRequests)"
    by blast
  moreover have k: "inviteCode exWishlist \<noteq> None"
    by (simp add: exWishlist_def)
  from C7_invite_code_amended[of flipBackRequests] exDb_wishlist k
  have "\<exists>w'. findWishlistById (run exDb flipBackRequests) 1 = Some w' \<and> inviteCode w' \<noteq> None"
    by blast
  ultimately show ?thesis using c b flipBack_histories by simp
qed

theorem C7_flip_back_counterexample:
  "map_option isPublic (findWishlistById (run emptyDb flipBackRequests) 1) = Some (Some False)
 \<and> map_option inviteCode (findWishlistById (run emptyDb flipBackRequests) 1) = Some (Some (js ''k3x9''))
 \<and> explicitlyGenerated emptyDb flipBackRequests = []"
  using flipBack_histories by (simp add: flipBack_run findWishlistById_def)

section \<open>The update document of a product\<close>

lemma foldl_applyUpdate_refs:
  assumes "\<forall>u \<in> set us. updateKey u \<noteq> ''wishlist'' \<and> updateKey u \<noteq> ''addedBy''"
  shows "wishlist (foldl applyUpdate p us) = wishlist p \<and> addedBy (foldl applyUpdate p us) = addedBy p"
  using assms
proof (induction us arbitrary: p)
  case Nil
  then show ?case by simp
next
  case (Cons u us)
  have "wishlist (applyUpdate p u) = wishlist p \<and> addedBy (applyUpdate p u) = addedBy p"
    using Cons.prems by (cases u) simp_all
  then show ?case using Cons by simp
qed

lemma updateProduct_plain_keys_keep_refs:
  assumes P: "findProductById d pid = Some P"
      and ok: "updateProduct d pid A body = (Inr (Some P'), d')"
      and flat: "\<forall>u \<in> set (dollarSet body). updateKey u \<noteq> ''wishlist'' \<and> updateKey u \<noteq> ''addedBy''"
  shows "wishlist P' = wishlist P \<and> addedBy P' = addedBy P"
proof -
  define us where "us = dollarSet (deleteKey ''addedBy'' (deleteKey ''wishlist'' body))
                        @ plainKeys (deleteKey ''addedBy'' (deleteKey ''wishlist'' body))"
  have keys: "\<forall>u \<in> set us. updateKey u \<noteq> ''wishlist'' \<and> updateKey u \<noteq> ''addedBy''"
    using flat by (auto simp: us_def deleteKey_def)
  have "P' = foldl applyUpdate P us"
    using P ok unfolding us_def
    by (auto simp: updateProduct_def findProductByIdAndUpdate_def Let_def
             split: option.splits if_splits)
  then show ?thesis using foldl_applyUpdate_refs[OF keys] by simp
qed

text \<open>
  C8. The claim fails on update-product: the request body is the update document, and a
  \<open>comments\<close> key in it replaces the stored list. Here the owner empties the comments of a
  product that held a comment of user 11
\<close>

theorem C8_update_overwrites_comments:
  "map_option comments (findProductById exDb 1)
     = Some [\<lparr>comment_user = 11, comment_text = js ''nice'', comment_createdAt = 8\<rparr>]
 \<and> map_option comments
     (findProductById (snd (updateProduct exDb 1 10 \<lparr>plainKeys = [SetComments []], dollarSet = []\<rparr>)) 1)
     = Some []"
  by (simp add: updateProduct_def findProductByIdAndUpdate_def deleteKey_def
        findProductById_def findWishlistById_def exDb_def exProduct_def exWishlist_def Let_def
        saveProduct_def saveWishlist_def calculateTotalValue_def populate_def priceOrZero_def)

text \<open>
  C9. The handler deletes the plain keys \<open>wishlist\<close> and \<open>addedBy\<close> of the body, which
  keeps both references when they are given as plain keys; given under \<open>$set\<close> they reach
  the update. Here editor 11 makes itself the creator of a product of user 10 and moves it
  to wishlist 7
\<close>

theorem C9_dollar_set_changes_refs:
  "map_option addedBy (findProductById exDb 1) = Some 10
 \<and> map_option wishlist (findProductById exDb 1) = Some 1
 \<and> map_option addedBy
     (findProductById (snd (updateProduct exDb 1 11
         \<lparr>plainKeys = [SetAddedBy 11, SetWishlist 7], dollarSet = []\<rparr>)) 1) = Some 10
 \<and> map_option addedBy
     (findProductById (snd (updateProduct exDb 1 11
         \<lparr>plainKeys = [], dollarSet = [SetAddedBy 11, SetWishlist 7]\<rparr>)) 1) = Some 11
 \<and> map_option wishlist
     (findProductById (snd (updateProduct exDb 1 11
         \<lparr>plainKeys = [], dollarSet = [SetAddedBy 11, SetWishlist 7]\<rparr>)) 1) = Some 7"
  by (simp add: updateProduct_def findProductByIdAndUpdate_def deleteKey_def
        findProductById_def findWishlistById_def exDb_def exProduct_def exWishlist_def Let_def
        saveProduct_def saveWishlist_def calculateTotalValue_def populate_def priceOrZero_def)


section \<open>Remove-reaction has no access check\<close>




end
